(* ===== verification/Prelude.thy ===== *)
theory Prelude
  imports Main "HOL-Library.Sublist"
begin

text \<open>
  Shared vocabulary of the development: the JavaScript built-ins the sources call
  (truthiness of optional strings, \<open>String.prototype.trim\<close>, \<open>includes\<close>,
  \<open>Array.prototype.join\<close>, \<open>parseInt(_, 10)\<close>, number-to-string interpolation), an
  insertion-ordered set as a duplicate-free list with the toggle used by the form, and
  the lemmas about them that the component theories share.  A JavaScript string is a
  list of UTF-16 code units; the model keeps the code units below 256 as HOL
  \<open>char\<close>s, one each, which is all the code's logic uses; the catalog's texts, one of
  which holds a code unit above 255, are lists of code units as numbers
  (\<open>js_utf16\<close>), and \<open>utf16\<close> reads a \<open>char\<close> string as such a list.
\<close>

named_theorems js_simps "evaluation rules of the modelled JavaScript built-ins"

type_synonym js_string = "string option"
  \<comment> \<open>a value of type \<open>string | undefined | null\<close>; both absent values are \<open>None\<close>\<close>

type_synonym js_utf16 = "nat list"
  \<comment> \<open>a string as its UTF-16 code units\<close>

definition utf16 :: "string \<Rightarrow> js_utf16" where
  "utf16 s = map of_char s"

lemma utf16_append [simp]: "utf16 (a @ b) = utf16 a @ utf16 b"
  by (simp add: utf16_def)

lemma length_utf16 [simp]: "length (utf16 s) = length s"
  by (simp add: utf16_def)

subsection \<open>Truthiness\<close>

definition js_truthy :: "js_string \<Rightarrow> bool" where
  "js_truthy v = (case v of None \<Rightarrow> False | Some s \<Rightarrow> s \<noteq> [])"

lemma js_truthy_simps [simp, js_simps]:
  "js_truthy None = False" "js_truthy (Some s) = (s \<noteq> [])"
  by (simp_all add: js_truthy_def)

subsection \<open>Whitespace and trim\<close>

text \<open>The white space and line terminators of ECMAScript that lie below code unit 256.\<close>

definition js_ws :: "char \<Rightarrow> bool" where
  "js_ws c \<longleftrightarrow> c \<in> set [CHR 0x09, CHR 0x0A, CHR 0x0B, CHR 0x0C, CHR 0x0D, CHR 0x20, CHR 0xA0]"

definition js_trim :: "string \<Rightarrow> string" where
  "js_trim s = rev (dropWhile js_ws (rev (dropWhile js_ws s)))"

lemma js_trim_empty_iff [js_simps]: "js_trim s = [] \<longleftrightarrow> (\<forall>c \<in> set s. js_ws c)"
proof -
  have "js_trim s = [] \<longleftrightarrow> dropWhile js_ws (rev (dropWhile js_ws s)) = []"
    by (simp add: js_trim_def)
  also have "\<dots> \<longleftrightarrow> (\<forall>c \<in> set (dropWhile js_ws s). js_ws c)"
    by simp
  also have "\<dots> \<longleftrightarrow> (\<forall>c \<in> set s. js_ws c)"
    by (induction s) auto
  finally show ?thesis .
qed

subsection \<open>Substring search\<close>

text \<open>\<open>haystack.includes(needle)\<close>: the needle occurs at some position.\<close>

fun js_includes :: "string \<Rightarrow> string \<Rightarrow> bool" where
  "js_includes n [] = (n = [])"
| "js_includes n (c # cs) = (prefix n (c # cs) \<or> js_includes n cs)"

lemma js_includes_sublist: "js_includes n h \<longleftrightarrow> sublist n h"
  by (induction h) (auto simp: sublist_Cons_right)

lemma js_includes_append [js_simps]: "js_includes n h \<Longrightarrow> js_includes n (a @ h @ b)"
  unfolding js_includes_sublist sublist_def by (metis append.assoc)

subsection \<open>Join\<close>

fun js_join :: "string \<Rightarrow> string list \<Rightarrow> string" where
  "js_join sep [] = []"
| "js_join sep [x] = x"
| "js_join sep (x # y # zs) = x @ sep @ js_join sep (y # zs)"

subsection \<open>Decimal digits, number printing and parseInt\<close>

definition js_is_digit :: "char \<Rightarrow> bool" where
  "js_is_digit c \<longleftrightarrow> (48::nat) \<le> of_char c \<and> of_char c \<le> (57::nat)"

definition js_digit_val :: "char \<Rightarrow> nat" where
  "js_digit_val c = of_char c - 48"

definition js_digits_value :: "string \<Rightarrow> nat" where
  "js_digits_value ds = foldl (\<lambda>acc c. 10 * acc + js_digit_val c) 0 ds"

text \<open>Template interpolation \<open>${n}\<close> of an integral number.\<close>

fun nat_digits :: "nat \<Rightarrow> string" where
  "nat_digits n =
     (if n < 10 then [char_of (48 + n)] else nat_digits (n div 10) @ [char_of (48 + n mod 10)])"

declare nat_digits.simps [simp del]

definition js_int_str :: "int \<Rightarrow> string" where
  "js_int_str i = (if i < 0 then CHR ''-'' # nat_digits (nat (- i)) else nat_digits (nat i))"

text \<open>
  \<open>parseInt(s, 10)\<close>: skip leading white space, read an optional sign, then the longest
  run of decimal digits; no digit at all is \<open>NaN\<close>, modelled as \<open>None\<close>.
\<close>

definition js_parseInt10 :: "string \<Rightarrow> int option" where
  "js_parseInt10 s =
     (let t = dropWhile js_ws s;
          (neg, r) = (case t of
                        [] \<Rightarrow> (False, [])
                      | c # cs \<Rightarrow> if c = CHR ''-'' then (True, cs)
                                 else if c = CHR ''+'' then (False, cs) else (False, t));
          ds = takeWhile js_is_digit r
      in if ds = [] then None
         else Some ((if neg then -1 else 1) * int (js_digits_value ds)))"

lemma of_char_digit: "d < 10 \<Longrightarrow> of_char (char_of (48 + d :: nat) :: char) = (48 + d :: nat)"
  by simp

lemma nat_digits_all_digits: "\<forall>c \<in> set (nat_digits n). js_is_digit c"
proof (induction n rule: nat_digits.induct)
  case (1 n)
  then show ?case
    by (subst nat_digits.simps) (auto simp: js_is_digit_def of_char_digit)
qed

lemma nat_digits_value: "js_digits_value (nat_digits n) = n"
proof (induction n rule: nat_digits.induct)
  case (1 n)
  show ?case
  proof (cases "n < 10")
    case True
    then show ?thesis
      by (subst nat_digits.simps) (simp add: js_digits_value_def js_digit_val_def of_char_digit)
  next
    case False
    with "1" have "js_digits_value (nat_digits (n div 10)) = n div 10" by simp
    with False show ?thesis
      by (subst nat_digits.simps)
         (simp add: js_digits_value_def js_digit_val_def of_char_digit)
  qed
qed

lemma nat_digits_ne: "nat_digits n \<noteq> []"
  by (subst nat_digits.simps) simp

lemma nat_digits_hd: "\<exists>c cs. nat_digits n = c # cs \<and> js_is_digit c"
  using nat_digits_all_digits [of n] nat_digits_ne [of n]
  by (cases "nat_digits n") auto

lemma js_parseInt10_nat_digits [js_simps]:
  "js_parseInt10 (nat_digits n) = Some (int n)"
proof -
  obtain c cs where nd: "nat_digits n = c # cs" and dc: "js_is_digit c"
    using nat_digits_hd by blast
  have nws: "\<not> js_ws c" and nsign: "c \<noteq> CHR ''-''" "c \<noteq> CHR ''+''"
    using dc by (auto simp: js_is_digit_def js_ws_def)
  have tw: "takeWhile js_is_digit (nat_digits n) = nat_digits n"
    using nat_digits_all_digits [of n] by simp
  show ?thesis
    using nws nsign tw nat_digits_ne [of n]
    by (simp add: js_parseInt10_def nd nat_digits_value [of n, unfolded nd])
qed

lemma js_parseInt10_int_str [js_simps]: "0 \<le> i \<Longrightarrow> js_parseInt10 (js_int_str i) = Some i"
  by (simp add: js_int_str_def js_parseInt10_nat_digits)

subsection \<open>Insertion-ordered sets\<close>

text \<open>
  A JavaScript \<open>Set\<close> iterates in insertion order; \<open>Array.from\<close> lists it so.  It is a
  duplicate-free list.  The form's toggle deletes a present element and appends an
  absent one.
\<close>

definition set_toggle :: "'a \<Rightarrow> 'a list \<Rightarrow> 'a list" where
  "set_toggle x xs = (if x \<in> set xs then removeAll x xs else xs @ [x])"

lemma distinct_set_toggle [simp]: "distinct xs \<Longrightarrow> distinct (set_toggle x xs)"
  by (simp add: set_toggle_def distinct_removeAll)

lemma set_set_toggle:
  "set (set_toggle x xs) = (if x \<in> set xs then set xs - {x} else insert x (set xs))"
  by (auto simp: set_toggle_def)

lemma set_toggle_subset [intro]: "set xs \<subseteq> A \<Longrightarrow> x \<in> A \<Longrightarrow> set (set_toggle x xs) \<subseteq> A"
  by (auto simp: set_set_toggle)

end
