(* ===== verification/Pricing.thy ===== *)
theory Pricing
  imports Prelude Complex_Main
begin

text \<open>
  The price calculator of \<open>src/components/ServicesSection.tsx\<close>
  (\<open>calculatePrice\<close>, lines 16--40), the budget tiers it switches on (line 10), and the
  duration input handler that clamps what the user types before it reaches the
  calculator (line 194).  JavaScript numbers are modelled exactly: the durations are
  integers and the prices are computed in \<open>rat\<close> before \<open>Math.round\<close>, which is
  \<open>round\<close> (round half up).
\<close>

datatype budget = Economique | Confort | Luxe

text \<open>The tier's label as the form shows it and sends it in the prompt.\<close>

fun budget_label :: "budget \<Rightarrow> string" where
  "budget_label Economique = CHR 0xC9 # ''conomique''"
| "budget_label Confort = ''Confort''"
| "budget_label Luxe = ''Luxe''"

definition BUDGET_OPTIONS :: "budget list" where
  "BUDGET_OPTIONS = [Economique, Confort, Luxe]"

definition BASE_DURATION :: rat where
  "BASE_DURATION = 5"

text \<open>
  The \<open>switch\<close> sets the cost per day and the margin; the \<open>default\<close> label shares the
  \<open>Confort\<close> row and is unreachable for a value of type \<open>Budget\<close>.
\<close>

definition calculatePrice :: "budget \<Rightarrow> int \<Rightarrow> int" where
  "calculatePrice b duration =
     (let (baseCostPerDay, margin) =
            (case b of
               Economique \<Rightarrow> (30000 / BASE_DURATION, 10 / 100)
             | Luxe \<Rightarrow> (55000 / BASE_DURATION, 15 / 100)
             | Confort \<Rightarrow> (40000 / BASE_DURATION, 12 / 100));
          totalBaseCost = baseCostPerDay * of_int duration;
          finalPrice = totalBaseCost * (1 + margin)
      in round finalPrice)"

text \<open>
  \<open>onChange={(e) => setDuration(Math.max(1, parseInt(e.target.value, 10) || 1))}\<close>:
  \<open>NaN || 1\<close> and \<open>0 || 1\<close> are \<open>1\<close>, any other number is kept, then clamped below by 1.
\<close>

definition durationInput :: "string \<Rightarrow> int" where
  "durationInput v =
     max 1 (case js_parseInt10 v of None \<Rightarrow> 1 | Some n \<Rightarrow> if n = 0 then 1 else n)"

subsection \<open>The price is linear in the duration\<close>

text \<open>The daily rate with the margin applied, an integer for every tier.\<close>

fun daily_rate :: "budget \<Rightarrow> int" where
  "daily_rate Economique = 6600"
| "daily_rate Confort = 8960"
| "daily_rate Luxe = 12650"

lemma round_numeral_times_int [simp]: "round (numeral n * of_int d :: rat) = numeral n * d"
  by (metis of_int_mult of_int_numeral round_of_int)

text \<open>The shared computation rule: the price is the daily rate times the duration.\<close>

lemma calculatePrice_daily_rate [simp]: "calculatePrice b d = daily_rate b * d"
  by (cases b) (simp_all add: calculatePrice_def BASE_DURATION_def)

lemma daily_rate_pos [simp]: "0 < daily_rate b"
  by (cases b) simp_all



lemma durationInput_ge_1 [simp]: "1 \<le> durationInput v"
  by (simp add: durationInput_def)



lemma durationInput_examples:
  "durationInput ''abc'' = 1" "durationInput ''0'' = 1" "durationInput ''-4'' = 1"
  "durationInput ''  7 jours'' = 7" "durationInput ''+12'' = 12"
  by (simp_all add: durationInput_def js_parseInt10_def js_ws_def js_is_digit_def
      js_digits_value_def js_digit_val_def)

end
