(* ===== verification/GeminiService.thy ===== *)
theory GeminiService
  imports Prelude Pricing
begin

text \<open>
  The resilient AI client of \<open>src/services/geminiService.ts\<close>.  The external
  \<open>ai.models.generateContent\<close> is the environment: a function from the request and the
  index of the call (how many calls the session has made before) to an outcome, the
  response's \<open>text\<close> (possibly \<open>undefined\<close>) or a thrown error, read through its
  \<open>toString()\<close>.  \<open>Math.random()\<close> is the environment too: the jitter of the n-th
  backoff wait.  The client's observable effects are the state \<open>ai_state\<close>: the number of
  calls made, the waits slept (ms, in order) and the console log.  The literal French
  texts of the prompts and fallbacks are the fields of the record \<open>gemini_texts\<close>: every
  definition and lemma holds for any value of them.
\<close>

datatype gen_outcome =
    Resp js_string   \<comment> \<open>the call resolves; \<open>response.text\<close>, \<open>undefined\<close> when it has no text part\<close>
  | Fail string      \<comment> \<open>the call rejects with an error whose \<open>toString()\<close> is the string\<close>

record gen_request =
  model :: string
  contents :: string
  temperature :: rat

record ai_env =
  API_KEY :: js_string
  generateContent :: "gen_request \<Rightarrow> nat \<Rightarrow> gen_outcome"
  jitter :: "nat \<Rightarrow> rat"

datatype log_entry =
    WarnRetry nat rat          \<comment> \<open>line 40: retries left and the wait chosen\<close>
  | ErrRateLimited string      \<comment> \<open>line 46: rate limited and no retry left\<close>
  | ErrNonRetriable string     \<comment> \<open>line 48\<close>

record ai_state =
  calls :: nat
  waits :: "rat list"
  log :: "log_entry list"

datatype ai_error =
    NotInitialized      \<comment> \<open>line 27\<close>
  | ApiError string     \<comment> \<open>line 50: the error of the last call, re-thrown\<close>
  | ItineraryFailed     \<comment> \<open>line 154\<close>

record gemini_texts =
  taglinePrompt :: string
  fallbackTagline :: string
  focusAgadir :: string
  focusRegion :: string
  interestsIntro :: string
  interestsOutro :: string
  interestsNone :: string
  promptIntro :: string
  promptBudget :: string
  promptFocus :: string
  promptInterests :: string
  promptRules :: string
  fallbackItinerary :: string

definition ai_initialized :: "ai_env \<Rightarrow> bool" where
  "ai_initialized env = js_truthy (API_KEY env)"

definition isRateLimitError :: "string \<Rightarrow> bool" where
  "isRateLimitError errorMessage \<longleftrightarrow>
     js_includes ''429'' errorMessage \<or> js_includes ''RESOURCE_EXHAUSTED'' errorMessage"

subsection \<open>generateContentWithRetry\<close>

text \<open>
  Lines 18--53.  The recursion is on \<open>retries\<close>, which the guard \<open>retries > 0\<close> makes
  decrease, so the function is total: this is the termination argument of the code.
\<close>

fun generateContentWithRetry ::
  "ai_env \<Rightarrow> gen_request \<Rightarrow> nat \<Rightarrow> nat \<Rightarrow> ai_state \<Rightarrow> (ai_error + js_string) \<times> ai_state"
where
  "generateContentWithRetry env params retries delay s =
     (if \<not> ai_initialized env then (Inl NotInitialized, s)
      else
        (let s1 = s\<lparr>calls := Suc (calls s)\<rparr> in
         case generateContent env params (calls s) of
           Resp text \<Rightarrow> (Inr text, s1)
         | Fail errorMessage \<Rightarrow>
             (let isRL = isRateLimitError errorMessage in
              if 0 < retries \<and> isRL then
                (let waitTime = of_nat delay + jitter env (length (waits s1)) in
                 generateContentWithRetry env params (retries - 1) (delay * 2)
                   (s1\<lparr>waits := waits s1 @ [waitTime],
                       log := log s1 @ [WarnRetry retries waitTime]\<rparr>))
              else
                (Inl (ApiError errorMessage),
                 s1\<lparr>log := log s1 @ [if isRL then ErrRateLimited errorMessage
                                      else ErrNonRetriable errorMessage]\<rparr>))))"

declare generateContentWithRetry.simps [simp del]

subsection \<open>generateWithFallback and the tagline\<close>

text \<open>The parameters both call sites pass: one model, the prompt, a temperature.\<close>

definition geminiRequest :: "string \<Rightarrow> rat \<Rightarrow> gen_request" where
  "geminiRequest prompt temp = \<lparr>model = ''gemini-2.5-flash'', contents = prompt, temperature = temp\<rparr>"

definition generateWithFallback ::
  "ai_env \<Rightarrow> string \<Rightarrow> string \<Rightarrow> ai_state \<Rightarrow> js_string \<times> ai_state"
where
  "generateWithFallback env prompt fallback s =
     (if \<not> js_truthy (API_KEY env) then (Some fallback, s)
      else
        (case generateContentWithRetry env (geminiRequest prompt (7 / 10)) 3 1000 s of
           (Inr text, s') \<Rightarrow> (text, s')
         | (Inl _, s') \<Rightarrow> (Some fallback, s')))"

definition generateAgencyContent :: "gemini_texts \<Rightarrow> ai_env \<Rightarrow> ai_state \<Rightarrow> js_string \<times> ai_state" where
  "generateAgencyContent T env s = generateWithFallback env (taglinePrompt T) (fallbackTagline T) s"

subsection \<open>The itinerary request\<close>

datatype region = Agadir | Region

record itinerary_params =
  ip_region :: region
  ip_interests :: "string list"
  ip_duration :: int
  ip_budget :: string

definition locationFocus :: "gemini_texts \<Rightarrow> region \<Rightarrow> string" where
  "locationFocus T r = (if r = Agadir then focusAgadir T else focusRegion T)"

definition interestPrompt :: "gemini_texts \<Rightarrow> string list \<Rightarrow> string" where
  "interestPrompt T interests =
     (if 0 < length interests
      then interestsIntro T @ js_join '', '' interests @ interestsOutro T
      else interestsNone T)"

definition itineraryPrompt :: "gemini_texts \<Rightarrow> itinerary_params \<Rightarrow> string" where
  "itineraryPrompt T p =
     promptIntro T @ js_int_str (ip_duration p) @ promptBudget T @ ip_budget p
     @ promptFocus T @ locationFocus T (ip_region p)
     @ promptInterests T @ interestPrompt T (ip_interests p) @ promptRules T"

text \<open>
  Lines 93--156.  Without a key the fixed sample itinerary is returned after a 1500 ms
  timer; with a key every failure of the call becomes one generic error.
\<close>

definition generateItinerary ::
  "gemini_texts \<Rightarrow> ai_env \<Rightarrow> itinerary_params \<Rightarrow> ai_state \<Rightarrow> (ai_error + js_string) \<times> ai_state"
where
  "generateItinerary T env p s =
     (let prompt = itineraryPrompt T p in
      if \<not> js_truthy (API_KEY env)
      then (Inr (Some (fallbackItinerary T)), s\<lparr>waits := waits s @ [1500]\<rparr>)
      else
        (case generateContentWithRetry env (geminiRequest prompt (8 / 10)) 3 1000 s of
           (Inr text, s') \<Rightarrow> (Inr text, s')
         | (Inl _, s') \<Rightarrow> (Inl ItineraryFailed, s')))"

text \<open>A sample value of the texts, for the closed instances below.\<close>

definition sample_texts :: gemini_texts where
  "sample_texts =
     \<lparr>taglinePrompt = ''tagline?'', fallbackTagline = ''Vibrez.'', focusAgadir = ''Agadir.'',
      focusRegion = ''Tafraout, Tiznit.'', interestsIntro = ''Interests: '', interestsOutro = ''.'',
      interestsNone = ''Balanced.'', promptIntro = ''Trip of '', promptBudget = '' days. Budget: '',
      promptFocus = ''. Focus: '', promptInterests = '' '', promptRules = '' Rules.'',
      fallbackItinerary = ''### Jour 1''\<rparr>"

subsection \<open>Characteristic equations of the retry wrapper\<close>

definition rate_limited :: "gen_outcome \<Rightarrow> bool" where
  "rate_limited r = (case r of Fail m \<Rightarrow> isRateLimitError m | Resp _ \<Rightarrow> False)"

text \<open>The waits of the first \<open>j\<close> retries started with \<open>delay\<close>, when \<open>w\<close> waits came before.\<close>

definition backoff_waits :: "ai_env \<Rightarrow> nat \<Rightarrow> nat \<Rightarrow> nat \<Rightarrow> rat list" where
  "backoff_waits env delay w j = map (\<lambda>i. of_nat (delay * 2 ^ i) + jitter env (w + i)) [0..<j]"

named_theorems gcwr_simps "characteristic equations of generateContentWithRetry"

lemma gcwr_not_initialized [gcwr_simps]:
  "\<not> ai_initialized env \<Longrightarrow> generateContentWithRetry env p r d s = (Inl NotInitialized, s)"
  by (simp add: generateContentWithRetry.simps)

lemma gcwr_resp [gcwr_simps]:
  "ai_initialized env \<Longrightarrow> generateContent env p (calls s) = Resp t \<Longrightarrow>
   generateContentWithRetry env p r d s = (Inr t, s\<lparr>calls := Suc (calls s)\<rparr>)"
  by (simp add: generateContentWithRetry.simps)

lemma gcwr_retry [gcwr_simps]:
  "ai_initialized env \<Longrightarrow> generateContent env p (calls s) = Fail m \<Longrightarrow> isRateLimitError m \<Longrightarrow>
   generateContentWithRetry env p (Suc r) d s =
   generateContentWithRetry env p r (d * 2)
     (s\<lparr>calls := Suc (calls s),
        waits := waits s @ [of_nat d + jitter env (length (waits s))],
        log := log s @ [WarnRetry (Suc r) (of_nat d + jitter env (length (waits s)))]\<rparr>)"
  by (simp add: generateContentWithRetry.simps [of env p "Suc r"] Let_def)

lemma gcwr_stop [gcwr_simps]:
  "ai_initialized env \<Longrightarrow> generateContent env p (calls s) = Fail m \<Longrightarrow>
   \<not> (0 < r \<and> isRateLimitError m) \<Longrightarrow>
   generateContentWithRetry env p r d s =
     (Inl (ApiError m), s\<lparr>calls := Suc (calls s),
        log := log s @ [if isRateLimitError m then ErrRateLimited m else ErrNonRetriable m]\<rparr>)"
  by (auto simp add: generateContentWithRetry.simps [of env p r] Let_def)

lemma gcwr_cases:
  obtains (uninit) "\<not> ai_initialized env"
  | (resp) t where "ai_initialized env" "generateContent env p (calls s) = Resp t"
  | (retry) m r' where "ai_initialized env" "generateContent env p (calls s) = Fail m"
      "isRateLimitError m" "r = Suc r'"
  | (stop) m where "ai_initialized env" "generateContent env p (calls s) = Fail m"
      "\<not> (0 < r \<and> isRateLimitError m)"
  by (cases "generateContent env p (calls s)"; cases r) auto

lemma backoff_waits_Suc:
  "backoff_waits env d w (Suc j) = backoff_waits env d w j @ [of_nat (d * 2 ^ j) + jitter env (w + j)]"
  by (simp add: backoff_waits_def)

lemma backoff_waits_Cons:
  "backoff_waits env d w (Suc k) = (of_nat d + jitter env w) # backoff_waits env (d * 2) (Suc w) k"
proof -
  have "[0..<Suc k] = 0 # map Suc [0..<k]"
    by (simp add: map_Suc_upt upt_conv_Cons)
  then show ?thesis
    unfolding backoff_waits_def by (simp add: mult.commute mult.left_commute)
qed

lemma backoff_waits_0 [simp]: "backoff_waits env d w 0 = []"
  by (simp add: backoff_waits_def)

lemma length_backoff_waits [simp]: "length (backoff_waits env d w j) = j"
  by (simp add: backoff_waits_def)

lemma rate_limited_Fail:
  "rate_limited r \<Longrightarrow> \<exists>m. r = Fail m \<and> isRateLimitError m"
  by (cases r) (auto simp: rate_limited_def)

subsection \<open>Behaviour of the retry wrapper\<close>

text \<open>
  Unrolling: while the calls keep failing with a rate-limit error and retries are left,
  each call costs one attempt, one wait of the doubled delay plus jitter, and one warning.
  Induction on the number of unrolled calls, adding the last one.
\<close>

lemma gcwr_rate_limited_prefix:
  assumes init: "ai_initialized env" and "j \<le> r"
    and rl: "\<forall>i<j. rate_limited (generateContent env p (calls s + i))"
  shows "generateContentWithRetry env p r d s =
    generateContentWithRetry env p (r - j) (d * 2 ^ j)
      (s\<lparr>calls := calls s + j, waits := waits s @ backoff_waits env d (length (waits s)) j,
          log := log s @ map (\<lambda>i. WarnRetry (r - i) (of_nat (d * 2 ^ i) + jitter env (length (waits s) + i))) [0..<j]\<rparr>)"
  using assms(2,3)
proof (induction j)
  case 0
  then show ?case by (simp add: backoff_waits_def)
next
  case (Suc j)
  then have IH: "generateContentWithRetry env p r d s =
    generateContentWithRetry env p (r - j) (d * 2 ^ j)
      (s\<lparr>calls := calls s + j, waits := waits s @ backoff_waits env d (length (waits s)) j,
          log := log s @ map (\<lambda>i. WarnRetry (r - i) (of_nat (d * 2 ^ i) + jitter env (length (waits s) + i))) [0..<j]\<rparr>)"
    by simp
  from Suc.prems obtain m where m: "generateContent env p (calls s + j) = Fail m" "isRateLimitError m"
    using rate_limited_Fail by blast
  have r: "r - j = Suc (r - Suc j)" using Suc.prems(1) by simp
  have r': "Suc (r - Suc j) = r - j" using Suc.prems(1) by simp
  show ?case
    unfolding IH r
    by (subst gcwr_retry [OF init]) (use m in \<open>simp_all add: mult_ac r' backoff_waits_Suc\<close>)
qed

text \<open>C1 (retry_bound): termination guarantee of the retry policy: every run of
  \<open>generateContentWithRetry\<close> makes at most \<open>retries + 1\<close> calls to the external service
  (4 with the default of 3 retries), and never forgets a call already made.\<close>

theorem generateContentWithRetry_attempts_bounded:
  "calls s \<le> calls (snd (generateContentWithRetry env p r d s)) \<and>
   calls (snd (generateContentWithRetry env p r d s)) \<le> calls s + r + 1"
proof (induction r arbitrary: d s)
  case 0
  then show ?case
    by (cases rule: gcwr_cases [where env = env and p = p and s = s and r = 0]) (simp_all add: gcwr_simps)
next
  case (Suc r)
  show ?case
  proof (cases rule: gcwr_cases [where env = env and p = p and s = s and r = "Suc r"])
    case (retry m r')
    define s' where "s' = s\<lparr>calls := Suc (calls s),
        waits := waits s @ [of_nat d + jitter env (length (waits s))],
        log := log s @ [WarnRetry (Suc r) (of_nat d + jitter env (length (waits s)))]\<rparr>"
    have "generateContentWithRetry env p (Suc r) d s = generateContentWithRetry env p r (d * 2) s'"
      using retry by (simp add: gcwr_retry s'_def)
    moreover have "calls s' = Suc (calls s)" by (simp add: s'_def)
    ultimately show ?thesis using Suc.IH [where d = "d * 2" and s = s'] by simp
  qed (simp_all add: gcwr_simps)
qed

text \<open>C4 (retry_success_third): with two rate-limit failures followed by a success, the
  wrapper returns the successful text after exactly three calls, having waited
  \<open>1000 + jitter\<close> and then \<open>2000 + jitter\<close> ms.\<close>

theorem generateContentWithRetry_third_attempt:
  assumes "ai_initialized env"
    and "generateContent env p (calls s) = Fail m1" "isRateLimitError m1"
    and "generateContent env p (calls s + 1) = Fail m2" "isRateLimitError m2"
    and "generateContent env p (calls s + 2) = Resp t"
  shows "generateContentWithRetry env p 3 1000 s =
    (Inr t, s\<lparr>calls := calls s + 3,
              waits := waits s @ [1000 + jitter env (length (waits s)), 2000 + jitter env (length (waits s) + 1)],
              log := log s @ [WarnRetry 3 (1000 + jitter env (length (waits s))),
                              WarnRetry 2 (2000 + jitter env (length (waits s) + 1))]\<rparr>)"
proof -
  have "\<forall>i<2. rate_limited (generateContent env p (calls s + i))"
    using assms(2-5) by (auto simp: rate_limited_def less_2_cases_iff)
  from gcwr_rate_limited_prefix [OF assms(1) _ this, of 3 1000]
  have "generateContentWithRetry env p 3 1000 s =
    generateContentWithRetry env p 1 4000
      (s\<lparr>calls := calls s + 2, waits := waits s @ backoff_waits env 1000 (length (waits s)) 2,
          log := log s @ map (\<lambda>i. WarnRetry (3 - i) (of_nat (1000 * 2 ^ i) + jitter env (length (waits s) + i))) [0..<2]\<rparr>)"
    by simp
  also have "\<dots> = (Inr t, s\<lparr>calls := calls s + 3,
              waits := waits s @ [1000 + jitter env (length (waits s)), 2000 + jitter env (length (waits s) + 1)],
              log := log s @ [WarnRetry 3 (1000 + jitter env (length (waits s))),
                              WarnRetry 2 (2000 + jitter env (length (waits s) + 1))]\<rparr>)"
    using assms(1,6) by (simp add: gcwr_resp backoff_waits_def numeral_2_eq_2 upt_rec)
  finally show ?thesis .
qed

theorem generateContentWithRetry_third_attempt_witness:
  "generateContentWithRetry
     \<lparr>API_KEY = Some ''key'', generateContent = (\<lambda>_ n. if n < 2 then Fail ''Error: 429'' else Resp (Some ''ok'')),
      jitter = (\<lambda>n. of_nat n)\<rparr>
     \<lparr>model = ''m'', contents = ''p'', temperature = 1\<rparr> 3 1000 \<lparr>calls = 0, waits = [], log = []\<rparr>
   = (Inr (Some ''ok''), \<lparr>calls = 3, waits = [1000, 2001],
       log = [WarnRetry 3 1000, WarnRetry 2 2001]\<rparr>)"
  using generateContentWithRetry_third_attempt
    [of "\<lparr>API_KEY = Some ''key'', generateContent = (\<lambda>_ n. if n < 2 then Fail ''Error: 429'' else Resp (Some ''ok'')),
          jitter = (\<lambda>n. of_nat n)\<rparr>"
        "\<lparr>model = ''m'', contents = ''p'', temperature = 1\<rparr>" "\<lparr>calls = 0, waits = [], log = []\<rparr>"
        "''Error: 429''" "''Error: 429''" "Some ''ok''"]
  by (simp add: ai_initialized_def isRateLimitError_def)

text \<open>C3 (retry_exhausted): when all four calls fail with a rate-limit error the wrapper
  gives up with the last error after exactly four calls and three waits.\<close>

theorem generateContentWithRetry_exhausted:
  assumes "ai_initialized env"
    and "\<forall>i<3. rate_limited (generateContent env p (calls s + i))"
    and "generateContent env p (calls s + 3) = Fail m" "isRateLimitError m"
  shows "fst (generateContentWithRetry env p 3 1000 s) = Inl (ApiError m)
    \<and> calls (snd (generateContentWithRetry env p 3 1000 s)) = calls s + 4
    \<and> waits (snd (generateContentWithRetry env p 3 1000 s)) =
        waits s @ backoff_waits env 1000 (length (waits s)) 3"
proof -
  have "generateContentWithRetry env p 3 1000 s =
    generateContentWithRetry env p 0 8000
      (s\<lparr>calls := calls s + 3, waits := waits s @ backoff_waits env 1000 (length (waits s)) 3,
          log := log s @ map (\<lambda>i. WarnRetry (3 - i) (of_nat (1000 * 2 ^ i) + jitter env (length (waits s) + i))) [0..<3]\<rparr>)"
    using gcwr_rate_limited_prefix [OF assms(1) _ assms(2), of 3 1000] by simp
  then show ?thesis
    using assms(1,3) by (simp add: gcwr_stop)
qed

theorem generateContentWithRetry_exhausted_witness:
  "fst (generateContentWithRetry
     \<lparr>API_KEY = Some ''key'', generateContent = (\<lambda>_ _. Fail ''RESOURCE_EXHAUSTED''), jitter = (\<lambda>_. 0)\<rparr>
     \<lparr>model = ''m'', contents = ''p'', temperature = 1\<rparr> 3 1000 \<lparr>calls = 0, waits = [], log = []\<rparr>)
     = Inl (ApiError ''RESOURCE_EXHAUSTED'')
   \<and> calls (snd (generateContentWithRetry
     \<lparr>API_KEY = Some ''key'', generateContent = (\<lambda>_ _. Fail ''RESOURCE_EXHAUSTED''), jitter = (\<lambda>_. 0)\<rparr>
     \<lparr>model = ''m'', contents = ''p'', temperature = 1\<rparr> 3 1000 \<lparr>calls = 0, waits = [], log = []\<rparr>)) = 4"
  using generateContentWithRetry_exhausted
    [of "\<lparr>API_KEY = Some ''key'', generateContent = (\<lambda>_ _. Fail ''RESOURCE_EXHAUSTED''), jitter = (\<lambda>_. 0)\<rparr>"
        "\<lparr>model = ''m'', contents = ''p'', temperature = 1\<rparr>" "\<lparr>calls = 0, waits = [], log = []\<rparr>"
        "''RESOURCE_EXHAUSTED''"]
  by (simp add: ai_initialized_def isRateLimitError_def rate_limited_def)

text \<open>C2 (retry_nonretriable): an error that is not rate-limit shaped is re-thrown at once:
  one call, no wait, one error logged, whatever the number of retries left.\<close>

theorem generateContentWithRetry_non_retriable:
  "ai_initialized env \<Longrightarrow> generateContent env p (calls s) = Fail m \<Longrightarrow> \<not> isRateLimitError m \<Longrightarrow>
   generateContentWithRetry env p r d s =
     (Inl (ApiError m), s\<lparr>calls := Suc (calls s), log := log s @ [ErrNonRetriable m]\<rparr>)"
  by (simp add: gcwr_stop)

theorem generateContentWithRetry_non_retriable_witness:
  "generateContentWithRetry
     \<lparr>API_KEY = Some ''key'', generateContent = (\<lambda>_ _. Fail ''Error: 400 INVALID_ARGUMENT''), jitter = (\<lambda>_. 0)\<rparr>
     \<lparr>model = ''m'', contents = ''p'', temperature = 1\<rparr> 3 1000 \<lparr>calls = 0, waits = [], log = []\<rparr>
   = (Inl (ApiError ''Error: 400 INVALID_ARGUMENT''),
      \<lparr>calls = 1, waits = [], log = [ErrNonRetriable ''Error: 400 INVALID_ARGUMENT'']\<rparr>)"
  using generateContentWithRetry_non_retriable
    [of "\<lparr>API_KEY = Some ''key'', generateContent = (\<lambda>_ _. Fail ''Error: 400 INVALID_ARGUMENT''), jitter = (\<lambda>_. 0)\<rparr>"
        "\<lparr>model = ''m'', contents = ''p'', temperature = 1\<rparr>" "\<lparr>calls = 0, waits = [], log = []\<rparr>"
        "''Error: 400 INVALID_ARGUMENT''" 3 1000]
  by (simp add: ai_initialized_def isRateLimitError_def)

text \<open>Every run only appends backoff waits: the first \<open>k\<close> of the schedule, \<open>k \<le> retries\<close>.\<close>

lemma gcwr_waits:
  "\<exists>k \<le> r. waits (snd (generateContentWithRetry env p r d s)) =
     waits s @ backoff_waits env d (length (waits s)) k"
proof (induction r arbitrary: d s)
  case 0
  then show ?case
    by (cases rule: gcwr_cases [where env = env and p = p and s = s and r = 0])
       (auto simp: gcwr_simps intro: exI [of _ 0])
next
  case (Suc r)
  show ?case
  proof (cases rule: gcwr_cases [where env = env and p = p and s = s and r = "Suc r"])
    case (retry m r')
    define s' where "s' = s\<lparr>calls := Suc (calls s),
        waits := waits s @ [of_nat d + jitter env (length (waits s))],
        log := log s @ [WarnRetry (Suc r) (of_nat d + jitter env (length (waits s)))]\<rparr>"
    have eq: "generateContentWithRetry env p (Suc r) d s = generateContentWithRetry env p r (d * 2) s'"
      using retry by (simp add: gcwr_retry s'_def)
    obtain k where "k \<le> r" and k: "waits (snd (generateContentWithRetry env p r (d * 2) s')) =
        waits s' @ backoff_waits env (d * 2) (length (waits s')) k"
      using Suc.IH [where d = "d * 2" and s = s'] by blast
    then have "waits (snd (generateContentWithRetry env p (Suc r) d s)) =
        waits s @ backoff_waits env d (length (waits s)) (Suc k)"
      by (simp add: eq s'_def backoff_waits_Cons)
    with \<open>k \<le> r\<close> show ?thesis by (intro exI [of _ "Suc k"]) simp
  qed (auto simp: gcwr_simps intro: exI [of _ 0])
qed

lemma backoff_waits_le3:
  assumes "k \<le> 3"
  shows "backoff_waits env 1000 w k \<in> {[], [1000 + jitter env w],
     [1000 + jitter env w, 2000 + jitter env (w + 1)],
     [1000 + jitter env w, 2000 + jitter env (w + 1), 4000 + jitter env (w + 2)]}"
proof -
  have "k = 0 \<or> k = 1 \<or> k = 2 \<or> k = 3" using assms by arith
  then show ?thesis
    by (auto simp: backoff_waits_def numeral_2_eq_2 numeral_3_eq_3 upt_rec)
qed

text \<open>C5 (backoff_schedule): with the default policy and a jitter in [0, 500) ms, the waits a
  call adds strictly increase (1000, 2000, 4000 ms plus jitter) and sum to less than
  8500 ms: the bound on the worst-case latency before giving up.\<close>

theorem generateContentWithRetry_backoff_bounded:
  assumes jit: "\<forall>n. 0 \<le> jitter env n \<and> jitter env n < 500"
  shows "sorted_wrt (<) (drop (length (waits s)) (waits (snd (generateContentWithRetry env p 3 1000 s))))
    \<and> sum_list (drop (length (waits s)) (waits (snd (generateContentWithRetry env p 3 1000 s)))) < 8500"
proof -
  obtain k where "k \<le> 3" and k: "waits (snd (generateContentWithRetry env p 3 1000 s)) =
      waits s @ backoff_waits env 1000 (length (waits s)) k"
    using gcwr_waits [of 3 env p 1000 s] by blast
  let ?w = "length (waits s)"
  have j: "0 \<le> jitter env ?w" "jitter env ?w < 500" "0 \<le> jitter env (?w + 1)" "jitter env (?w + 1) < 500"
    "0 \<le> jitter env (?w + 2)" "jitter env (?w + 2) < 500"
    using jit by blast+
  show ?thesis
    using backoff_waits_le3 [OF \<open>k \<le> 3\<close>, of env ?w] j by (auto simp: k)
qed

theorem generateContentWithRetry_backoff_bounded_witness:
  "(\<forall>n. 0 \<le> jitter \<lparr>API_KEY = Some ''key'', generateContent = (\<lambda>_ _. Fail ''429''), jitter = (\<lambda>_. 499)\<rparr> n
       \<and> jitter \<lparr>API_KEY = Some ''key'', generateContent = (\<lambda>_ _. Fail ''429''), jitter = (\<lambda>_. 499)\<rparr> n < 500)
   \<and> sum_list (drop 0 (waits (snd (generateContentWithRetry
       \<lparr>API_KEY = Some ''key'', generateContent = (\<lambda>_ _. Fail ''429''), jitter = (\<lambda>_. 499)\<rparr>
       \<lparr>model = ''m'', contents = ''p'', temperature = 1\<rparr> 3 1000 \<lparr>calls = 0, waits = [], log = []\<rparr>)))) < 8500"
  using generateContentWithRetry_backoff_bounded
    [of "\<lparr>API_KEY = Some ''key'', generateContent = (\<lambda>_ _. Fail ''429''), jitter = (\<lambda>_. 499)\<rparr>"
        "\<lparr>calls = 0, waits = [], log = []\<rparr>" "\<lparr>model = ''m'', contents = ''p'', temperature = 1\<rparr>"]
  by simp

text \<open>A successful run returns the text of one of its calls.\<close>

lemma gcwr_Inr_origin:
  "generateContentWithRetry env p r d s = (Inr t, s') \<Longrightarrow>
   \<exists>i \<le> r. generateContent env p (calls s + i) = Resp t \<and> calls s' = calls s + i + 1"
proof (induction r arbitrary: d s)
  case 0
  then show ?case
    by (cases rule: gcwr_cases [where env = env and p = p and s = s and r = 0])
       (auto simp: gcwr_simps)
next
  case (Suc r)
  show ?case
  proof (cases rule: gcwr_cases [where env = env and p = p and s = s and r = "Suc r"])
    case (retry m r')
    define s1 where "s1 = s\<lparr>calls := Suc (calls s),
        waits := waits s @ [of_nat d + jitter env (length (waits s))],
        log := log s @ [WarnRetry (Suc r) (of_nat d + jitter env (length (waits s)))]\<rparr>"
    have "generateContentWithRetry env p r (d * 2) s1 = (Inr t, s')"
      using retry Suc.prems by (simp add: gcwr_retry s1_def)
    from Suc.IH [OF this] obtain i where "i \<le> r"
      "generateContent env p (calls s1 + i) = Resp t" "calls s' = calls s1 + i + 1"
      by blast
    then show ?thesis by (intro exI [of _ "Suc i"]) (simp add: s1_def)
  qed (use Suc.prems in \<open>auto simp: gcwr_simps\<close>)
qed

subsection \<open>The fallback wrapper and the tagline\<close>

text \<open>C7 (fallback_no_key): without a credential \<open>generateWithFallback\<close> returns exactly the
  fallback text and makes no call at all (the state is unchanged).\<close>

theorem generateWithFallback_no_key:
  "\<not> js_truthy (API_KEY env) \<Longrightarrow> generateWithFallback env prompt fallback s = (Some fallback, s)"
  by (simp add: generateWithFallback_def)

theorem generateWithFallback_no_key_witness:
  "generateWithFallback \<lparr>API_KEY = Some [], generateContent = (\<lambda>_ _. Resp (Some ''x'')), jitter = (\<lambda>_. 0)\<rparr>
     ''prompt'' ''fallback'' \<lparr>calls = 7, waits = [], log = []\<rparr>
   = (Some ''fallback'', \<lparr>calls = 7, waits = [], log = []\<rparr>)"
  using generateWithFallback_no_key
    [of "\<lparr>API_KEY = Some [], generateContent = (\<lambda>_ _. Resp (Some ''x'')), jitter = (\<lambda>_. 0)\<rparr>"]
  by simp

text \<open>The result of the wrapper comes from a response or is the fallback.\<close>

lemma generateWithFallback_result:
  "fst (generateWithFallback env prompt fallback s) = Some fallback \<or>
   (\<exists>i < 4. generateContent env (geminiRequest prompt (7 / 10)) (calls s + i)
              = Resp (fst (generateWithFallback env prompt fallback s)))"
proof (cases "js_truthy (API_KEY env)")
  case True
  show ?thesis
  proof (cases "generateContentWithRetry env (geminiRequest prompt (7 / 10)) 3 1000 s")
    case (Pair res s')
    show ?thesis
    proof (cases res)
      case (Inr t)
      with Pair gcwr_Inr_origin [of env "geminiRequest prompt (7 / 10)" 3 1000 s t s']
      obtain i where "i \<le> 3" "generateContent env (geminiRequest prompt (7 / 10)) (calls s + i) = Resp t"
        by blast
      with True Pair Inr show ?thesis
        by (auto simp: generateWithFallback_def)
    qed (use True Pair in \<open>simp add: generateWithFallback_def\<close>)
  qed
qed (simp add: generateWithFallback_def)

text \<open>C8 (fallback_contained): failures never escape \<open>generateWithFallback\<close>: its result is
  the fallback text or the text returned by one of at most four calls to the service.\<close>

theorem generateWithFallback_contained:
  "fst (generateWithFallback env prompt fallback s) = Some fallback \<or>
   (\<exists>i < 4. generateContent env (geminiRequest prompt (7 / 10)) (calls s + i)
              = Resp (fst (generateWithFallback env prompt fallback s)))"
  by (rule generateWithFallback_result)

text \<open>C32 (fallback_undefined_text): a response without a text part is passed on as
  \<open>undefined\<close>: the wrapper returns \<open>undefined\<close>, not the fallback.\<close>

theorem generateWithFallback_undefined_text:
  "js_truthy (API_KEY env) \<Longrightarrow> generateContent env (geminiRequest prompt (7 / 10)) (calls s) = Resp None \<Longrightarrow>
   fst (generateWithFallback env prompt fallback s) = None"
  by (simp add: generateWithFallback_def gcwr_resp ai_initialized_def)

theorem generateWithFallback_undefined_text_witness:
  "fst (generateWithFallback \<lparr>API_KEY = Some ''key'', generateContent = (\<lambda>_ _. Resp None), jitter = (\<lambda>_. 0)\<rparr>
     ''prompt'' ''fallback'' \<lparr>calls = 0, waits = [], log = []\<rparr>) = None"
  using generateWithFallback_undefined_text
    [of "\<lparr>API_KEY = Some ''key'', generateContent = (\<lambda>_ _. Resp None), jitter = (\<lambda>_. 0)\<rparr>"
        "''prompt''" "\<lparr>calls = 0, waits = [], log = []\<rparr>" "''fallback''"]
  by simp

subsection \<open>The itinerary\<close>

text \<open>C17 (itinerary_no_key): without a credential the itinerary is the fixed sample, after the
  1500 ms timer and with no call, whatever the region, interests, duration and budget.\<close>

theorem generateItinerary_no_key:
  "\<not> js_truthy (API_KEY env) \<Longrightarrow>
   generateItinerary T env p s = (Inr (Some (fallbackItinerary T)), s\<lparr>waits := waits s @ [1500]\<rparr>)"
  by (simp add: generateItinerary_def)

theorem generateItinerary_no_key_witness:
  "generateItinerary sample_texts \<lparr>API_KEY = None, generateContent = (\<lambda>_ _. Resp None), jitter = (\<lambda>_. 0)\<rparr>
     \<lparr>ip_region = Region, ip_interests = [], ip_duration = 10, ip_budget = ''Luxe''\<rparr>
     \<lparr>calls = 0, waits = [], log = []\<rparr>
   = (Inr (Some (fallbackItinerary sample_texts)), \<lparr>calls = 0, waits = [1500], log = []\<rparr>)"
  using generateItinerary_no_key
    [of "\<lparr>API_KEY = None, generateContent = (\<lambda>_ _. Resp None), jitter = (\<lambda>_. 0)\<rparr>"]
  by simp





subsection \<open>The retry policy as a bounded loop\<close>

text \<open>
  Section 9 of the specification describes the policy as an explicit loop: attempt
  \<open>i\<close> counts up from 0 to \<open>maxRetries\<close>, and the i-th wait is
  \<open>baseDelay * 2^i\<close> plus jitter.  \<open>retry_loop\<close> is that loop; its termination
  measure is the number of attempts left.
\<close>

function retry_loop ::
  "ai_env \<Rightarrow> gen_request \<Rightarrow> nat \<Rightarrow> nat \<Rightarrow> nat \<Rightarrow> ai_state \<Rightarrow> (ai_error + js_string) \<times> ai_state"
where
  "retry_loop env params maxRetries baseDelay i s =
     (if \<not> ai_initialized env then (Inl NotInitialized, s)
      else
        (let s1 = s\<lparr>calls := Suc (calls s)\<rparr> in
         case generateContent env params (calls s) of
           Resp text \<Rightarrow> (Inr text, s1)
         | Fail m \<Rightarrow>
             (if i < maxRetries \<and> isRateLimitError m then
                (let w = of_nat (baseDelay * 2 ^ i) + jitter env (length (waits s1)) in
                 retry_loop env params maxRetries baseDelay (Suc i)
                   (s1\<lparr>waits := waits s1 @ [w], log := log s1 @ [WarnRetry (maxRetries - i) w]\<rparr>))
              else
                (Inl (ApiError m),
                 s1\<lparr>log := log s1 @ [if isRateLimitError m then ErrRateLimited m else ErrNonRetriable m]\<rparr>))))"
  by pat_completeness auto
termination
  by (relation "measure (\<lambda>(env, params, maxRetries, baseDelay, i, s). maxRetries - i)") auto

declare retry_loop.simps [simp del]

lemma gcwr_retry_loop:
  "i \<le> maxRetries \<Longrightarrow>
   generateContentWithRetry env p (maxRetries - i) (baseDelay * 2 ^ i) s = retry_loop env p maxRetries baseDelay i s"
proof (induction env p maxRetries baseDelay i s rule: retry_loop.induct)
  case (1 env p maxRetries baseDelay i s)
  show ?case
  proof (cases rule: gcwr_cases [where env = env and p = p and s = s and r = "maxRetries - i"])
    case uninit
    then show ?thesis
      by (simp add: gcwr_not_initialized retry_loop.simps [of env p maxRetries baseDelay i s])
  next
    case (resp t)
    then show ?thesis
      by (simp add: gcwr_resp retry_loop.simps [of env p maxRetries baseDelay i s])
  next
    case (retry m r')
    let ?w = "rat_of_nat (baseDelay * 2 ^ i) + jitter env (length (waits s))"
    let ?S = "s\<lparr>calls := Suc (calls s), waits := waits s @ [?w],
                log := log s @ [WarnRetry (maxRetries - i) ?w]\<rparr>"
    have lt: "i < maxRetries" using retry by arith
    have eq: "maxRetries - i = Suc (maxRetries - Suc i)" using lt by arith
    have IH: "generateContentWithRetry env p (maxRetries - Suc i) (baseDelay * 2 ^ Suc i) ?S
        = retry_loop env p maxRetries baseDelay (Suc i) ?S"
      using "1.IH" [OF _ refl retry(2) _ refl] retry lt by simp
    have "generateContentWithRetry env p (maxRetries - i) (baseDelay * 2 ^ i) s
        = generateContentWithRetry env p (maxRetries - Suc i) (baseDelay * 2 ^ Suc i) ?S"
      unfolding eq by (subst gcwr_retry [OF retry(1) retry(2) retry(3)]) (simp add: mult_ac eq [symmetric])
    also have "\<dots> = retry_loop env p maxRetries baseDelay (Suc i) ?S"
      by (rule IH)
    also have "\<dots> = retry_loop env p maxRetries baseDelay i s"
      using retry lt by (simp add: retry_loop.simps [of env p maxRetries baseDelay i s] Let_def)
    finally show ?thesis .
  next
    case (stop m)
    then have "\<not> (i < maxRetries \<and> isRateLimitError m)" using "1.prems" by auto
    with stop show ?thesis
      by (auto simp add: gcwr_stop retry_loop.simps [of env p maxRetries baseDelay i s] Let_def)
  qed
qed

text \<open>C6 (retry_refinement): the recursive \<open>generateContentWithRetry\<close> of the code computes
  exactly what the bounded loop of the specification computes: the same result, the same
  calls, waits and log.\<close>

theorem generateContentWithRetry_refines_loop:
  "generateContentWithRetry env p r d s = retry_loop env p r d 0 s"
  using gcwr_retry_loop [of 0 r env p d s] by simp

end
