(* ===== verification/ServicesSection.thy ===== *)
theory ServicesSection
  imports Prelude Pricing GeminiService
begin

text \<open>
  The trip form of \<open>src/components/ServicesSection.tsx\<close> with its finalisation modal
  (\<open>src/docs/components/BookingFinalizationModal.tsx\<close>) and confirmation banner.  The
  React state hooks (lines 43--55) are the fields of the record \<open>form_state\<close>; the
  model adds what the JavaScript runtime holds for the component: the generation
  requests awaiting their result (with the budget and duration the \<open>handleSubmit\<close>
  closure captured), the modal's own \<open>isSubmitting\<close> hook, the pending timers, and the
  AI client's state.  Each handler is one definition; \<open>enabled\<close> reads off the JSX
  which events the rendered page offers; \<open>form_step\<close> is the step relation and
  \<open>form_reachable\<close> the reachable states.  An asynchronous completion (the awaited
  itinerary, the 1500 ms payment timer, the 5 s reset timer) is an event of its own, so
  user events may interleave with pending work as in the browser.  Pointer events on the
  page are blocked while the modal's overlay covers it.
\<close>

datatype interest =
    FarnientePlage | SurfSportsNautiques | GastronomieVieNocturne | GolfResorts
  | TrekkingMontagne | AventureAdrenaline | CultureBerbere | NuitsBivouac

fun interest_label :: "interest \<Rightarrow> string" where
  "interest_label FarnientePlage = ''Farniente & Plage''"
| "interest_label SurfSportsNautiques = ''Surf & Sports Nautiques''"
| "interest_label GastronomieVieNocturne = ''Gastronomie & Vie Nocturne''"
| "interest_label GolfResorts = ''Golf & Resorts''"
| "interest_label TrekkingMontagne = ''Trekking en Montagne''"
| "interest_label AventureAdrenaline = ''Aventure & Adr'' @ CHR 0xE9 # ''naline''"
| "interest_label CultureBerbere = ''Culture Berb'' @ CHR 0xE8 # ''re''"
| "interest_label NuitsBivouac = ''Nuits en Bivouac''"

definition AGADIR_INTERESTS :: "interest list" where
  "AGADIR_INTERESTS = [FarnientePlage, SurfSportsNautiques, GastronomieVieNocturne, GolfResorts]"

definition REGION_INTERESTS :: "interest list" where
  "REGION_INTERESTS = [TrekkingMontagne, AventureAdrenaline, CultureBerbere, NuitsBivouac]"

text \<open>Line 130: the interests offered for the current region.\<close>

definition interestOptions :: "region option \<Rightarrow> interest list" where
  "interestOptions r = (if r = Some Agadir then AGADIR_INTERESTS else REGION_INTERESTS)"

datatype form_error = ValidationMessage | GenerationMessage

record form_state =
  name :: string
  email :: string
  phone :: string
  region :: "region option"
  interests :: "interest list"
  duration :: int
  budget :: budget
  itinerary :: js_string
  isLoading :: bool
  error :: "form_error option"
  finalPrice :: "int option"
  isFinalizeModalOpen :: bool
  isConfirmed :: bool
  inflight :: "(budget \<times> itinerary_params) list"
  modalSubmitting :: bool
  pendingConfirm :: nat
  pendingReset :: nat
  ai :: ai_state

definition form_init :: form_state where
  "form_init =
     \<lparr>name = [], email = [], phone = [], region = None, interests = [], duration = 3,
      budget = Confort, itinerary = None, isLoading = False, error = None, finalPrice = None,
      isFinalizeModalOpen = False, isConfirmed = False, inflight = [], modalSubmitting = False,
      pendingConfirm = 0, pendingReset = 0, ai = \<lparr>calls = 0, waits = [], log = []\<rparr>\<rparr>"

subsection \<open>Handlers\<close>

text \<open>\<open>setRegion\<close> followed by the effect on \<open>[region]\<close> (lines 59--62), which runs
  only when the region changed.\<close>

definition setRegion :: "region option \<Rightarrow> form_state \<Rightarrow> form_state" where
  "setRegion r s = (if region s = r then s else s\<lparr>region := r, interests := []\<rparr>)"

definition isFormValid :: "form_state \<Rightarrow> bool" where
  "isFormValid s \<longleftrightarrow>
     js_trim (name s) \<noteq> [] \<and> js_trim (email s) \<noteq> [] \<and> js_trim (phone s) \<noteq> [] \<and> region s \<noteq> None"

definition handleInterestChange :: "interest \<Rightarrow> form_state \<Rightarrow> form_state" where
  "handleInterestChange i s = s\<lparr>interests := set_toggle i (interests s)\<rparr>"

text \<open>\<open>handleSubmit\<close> up to its \<open>await\<close> (lines 76--92): the validity guard, the state
  reset, and the request issued with the values of this render.\<close>

definition handleSubmit :: "form_state \<Rightarrow> form_state" where
  "handleSubmit s =
     (if \<not> isFormValid s then s\<lparr>error := Some ValidationMessage\<rparr>
      else
        (case region s of
           None \<Rightarrow> s
         | Some r \<Rightarrow>
             s\<lparr>isLoading := True, error := None, itinerary := None, finalPrice := None,
               inflight := inflight s @
                 [(budget s, \<lparr>ip_region = r, ip_interests = map interest_label (interests s),
                              ip_duration = duration s, ip_budget = budget_label (budget s)\<rparr>)]\<rparr>))"

text \<open>The continuation of \<open>handleSubmit\<close> once the \<open>k\<close>-th pending generation settles
  (lines 93--101): the price uses the captured budget and duration.\<close>

definition settleSubmit :: "gemini_texts \<Rightarrow> ai_env \<Rightarrow> nat \<Rightarrow> form_state \<Rightarrow> form_state" where
  "settleSubmit T env k s =
     (let (b, p) = inflight s ! k;
          (res, ai') = generateItinerary T env p (ai s);
          s1 = s\<lparr>inflight := take k (inflight s) @ drop (Suc k) (inflight s), ai := ai'\<rparr>
      in case res of
           Inr result \<Rightarrow>
             s1\<lparr>itinerary := result, finalPrice := Some (calculatePrice b (ip_duration p)),
                isLoading := False\<rparr>
         | Inl _ \<Rightarrow> s1\<lparr>error := Some GenerationMessage, isLoading := False\<rparr>)"

definition handleReset :: "form_state \<Rightarrow> form_state" where
  "handleReset s = s\<lparr>itinerary := None, error := None, isLoading := False, finalPrice := None\<rparr>"

definition handleFullReset :: "form_state \<Rightarrow> form_state" where
  "handleFullReset s =
     (setRegion None (handleReset s))\<lparr>name := [], email := [], phone := [], interests := []\<rparr>"

text \<open>\<open>handleConfirmBooking\<close> (lines 121--128): it schedules the 5 s reset timer.\<close>

definition handleConfirmBooking :: "form_state \<Rightarrow> form_state" where
  "handleConfirmBooking s =
     s\<lparr>isFinalizeModalOpen := False, isConfirmed := True, pendingReset := Suc (pendingReset s)\<rparr>"

definition resetTimerFires :: "form_state \<Rightarrow> form_state" where
  "resetTimerFires s = handleFullReset (s\<lparr>isConfirmed := False, pendingReset := pendingReset s - 1\<rparr>)"

text \<open>The modal's \<open>handleConfirm\<close> and its 1500 ms timer, which calls \<open>onConfirm\<close> and then
  clears \<open>isSubmitting\<close>.  The modal returns before its hook when closed, so closing it
  drops its \<open>isSubmitting\<close> state.\<close>

definition confirmPayment :: "form_state \<Rightarrow> form_state" where
  "confirmPayment s = s\<lparr>modalSubmitting := True, pendingConfirm := Suc (pendingConfirm s)\<rparr>"

definition paymentTimerFires :: "form_state \<Rightarrow> form_state" where
  "paymentTimerFires s =
     (handleConfirmBooking s)\<lparr>modalSubmitting := False, pendingConfirm := pendingConfirm s - 1\<rparr>"

definition closeFinalize :: "form_state \<Rightarrow> form_state" where
  "closeFinalize s = s\<lparr>isFinalizeModalOpen := False, modalSubmitting := False\<rparr>"

text \<open>The confirmation banner's close button (\<open>ConfirmationBanner.tsx\<close>, rendered under
  \<open>{isConfirmed && ...}\<close> at line 269).\<close>

definition closeBanner :: "form_state \<Rightarrow> form_state" where
  "closeBanner s = s\<lparr>isConfirmed := False\<rparr>"

subsection \<open>Events, enabledness and steps\<close>

datatype ui_event =
    SelectRegion region | ChangeDestination
  | EditName string | EditEmail string | EditPhone string
  | ToggleInterest interest | EditDuration string | SelectBudget budget
  | Submit | GenerationSettles nat
  | ModifyPreferences | OpenFinalize | CloseFinalize | ConfirmPayment
  | PaymentTimerFires | ResetTimerFires | CloseBanner

fun handle :: "gemini_texts \<Rightarrow> ai_env \<Rightarrow> ui_event \<Rightarrow> form_state \<Rightarrow> form_state" where
  "handle T env (SelectRegion r) s = setRegion (Some r) s"
| "handle T env ChangeDestination s = setRegion None s"
| "handle T env (EditName v) s = s\<lparr>name := v\<rparr>"
| "handle T env (EditEmail v) s = s\<lparr>email := v\<rparr>"
| "handle T env (EditPhone v) s = s\<lparr>phone := v\<rparr>"
| "handle T env (ToggleInterest i) s = handleInterestChange i s"
| "handle T env (EditDuration v) s = s\<lparr>duration := durationInput v\<rparr>"
| "handle T env (SelectBudget b) s = s\<lparr>budget := b\<rparr>"
| "handle T env Submit s = handleSubmit s"
| "handle T env (GenerationSettles k) s = settleSubmit T env k s"
| "handle T env ModifyPreferences s = handleReset s"
| "handle T env OpenFinalize s = s\<lparr>isFinalizeModalOpen := True\<rparr>"
| "handle T env CloseFinalize s = closeFinalize s"
| "handle T env ConfirmPayment s = confirmPayment s"
| "handle T env PaymentTimerFires s = paymentTimerFires s"
| "handle T env ResetTimerFires s = resetTimerFires s"
| "handle T env CloseBanner s = closeBanner s"

text \<open>
  What the rendered page offers (lines 143--269): the form while there is no itinerary
  (the region buttons while no region is chosen, the rest after), the submit button
  unless \<open>disabled={!isFormValid || isLoading}\<close>, the itinerary view's two buttons once
  loading is over, the modal's buttons while it is open (confirm unless submitting), the
  banner's close button while confirmed; pending completions may fire at any time.
\<close>

definition enabled :: "form_state \<Rightarrow> ui_event \<Rightarrow> bool" where
  "enabled s e =
     (let formShown = \<not> js_truthy (itinerary s) \<and> \<not> isFinalizeModalOpen s;
          detailsShown = formShown \<and> region s \<noteq> None;
          resultShown = js_truthy (itinerary s) \<and> \<not> isLoading s \<and> \<not> isFinalizeModalOpen s
      in case e of
           SelectRegion _ \<Rightarrow> formShown \<and> region s = None
         | ToggleInterest i \<Rightarrow> detailsShown \<and> i \<in> set (interestOptions (region s))
         | Submit \<Rightarrow> detailsShown \<and> \<not> (\<not> isFormValid s \<or> isLoading s)
         | GenerationSettles k \<Rightarrow> k < length (inflight s)
         | ModifyPreferences \<Rightarrow> resultShown
         | OpenFinalize \<Rightarrow> resultShown
         | CloseFinalize \<Rightarrow> isFinalizeModalOpen s
         | ConfirmPayment \<Rightarrow> isFinalizeModalOpen s \<and> \<not> modalSubmitting s
         | PaymentTimerFires \<Rightarrow> 0 < pendingConfirm s
         | ResetTimerFires \<Rightarrow> 0 < pendingReset s
         | CloseBanner \<Rightarrow> isConfirmed s
         | _ \<Rightarrow> detailsShown)"

inductive form_step :: "gemini_texts \<Rightarrow> ai_env \<Rightarrow> form_state \<Rightarrow> form_state \<Rightarrow> bool"
  for T :: gemini_texts and env :: ai_env where
  step: "enabled s e \<Longrightarrow> form_step T env s (handle T env e s)"

inductive form_reachable :: "gemini_texts \<Rightarrow> ai_env \<Rightarrow> form_state \<Rightarrow> bool"
  for T :: gemini_texts and env :: ai_env where
  init: "form_reachable T env form_init"
| step: "form_reachable T env s \<Longrightarrow> form_step T env s s' \<Longrightarrow> form_reachable T env s'"

text \<open>Running a sequence of events; \<open>None\<close> when one of them is not offered.\<close>

fun run :: "gemini_texts \<Rightarrow> ai_env \<Rightarrow> form_state \<Rightarrow> ui_event list \<Rightarrow> form_state option" where
  "run T env s [] = Some s"
| "run T env s (e # es) = (if enabled s e then run T env (handle T env e s) es else None)"

subsection \<open>The form invariant\<close>

text \<open>A pending request is a well-formed \<open>ItineraryParams\<close> of \<open>geminiService.ts\<close>
  (lines 86--91) for the tier the closure captured: its duration is at least one day, its
  budget is that tier's label, and its interests are distinct labels of the options of
  its region.\<close>

definition request_wf :: "budget \<Rightarrow> itinerary_params \<Rightarrow> bool" where
  "request_wf b p \<longleftrightarrow>
     1 \<le> ip_duration p \<and> ip_budget p = budget_label b \<and> distinct (ip_interests p)
   \<and> set (ip_interests p) \<subseteq> interest_label ` set (interestOptions (Some (ip_region p)))"

text \<open>What every reachable state keeps: the interests are a duplicate-free selection of the
  region's options (none without a region), the duration is at least one day, every
  pending request is well formed, a stored price is positive, loading means a request is
  pending, and the validation message is never shown.\<close>

definition form_inv :: "form_state \<Rightarrow> bool" where
  "form_inv s \<longleftrightarrow>
     distinct (interests s)
   \<and> set (interests s) \<subseteq> set (interestOptions (region s))
   \<and> (region s = None \<longrightarrow> interests s = [])
   \<and> 1 \<le> duration s
   \<and> list_all (\<lambda>(b, p). request_wf b p) (inflight s)
   \<and> (case finalPrice s of None \<Rightarrow> True | Some p \<Rightarrow> 0 < p)
   \<and> (isLoading s \<longrightarrow> inflight s \<noteq> [])
   \<and> error s \<noteq> Some ValidationMessage"

lemmas form_handler_defs =
  setRegion_def isFormValid_def handleInterestChange_def handleSubmit_def handleReset_def
  handleFullReset_def handleConfirmBooking_def resetTimerFires_def confirmPayment_def
  paymentTimerFires_def closeFinalize_def closeBanner_def

lemma inj_interest_label: "inj interest_label"
proof (rule injI)
  fix i j :: interest
  show "interest_label i = interest_label j \<Longrightarrow> i = j"
    by (cases i; cases j) simp_all
qed

lemma handleSubmit_request_wf:
  "form_inv s \<Longrightarrow> region s = Some r \<Longrightarrow>
   request_wf (budget s) \<lparr>ip_region = r, ip_interests = map interest_label (interests s),
      ip_duration = duration s, ip_budget = budget_label (budget s)\<rparr>"
  using inj_interest_label
  by (auto simp: request_wf_def form_inv_def distinct_map inj_on_subset [OF inj_interest_label])

lemma form_inv_init: "form_inv form_init"
  by (simp add: form_inv_def form_init_def interestOptions_def)

lemma set_remove_nth_subset: "set (take k xs @ drop (Suc k) xs) \<subseteq> set xs"
  by (auto dest: in_set_takeD in_set_dropD)

lemma settleSubmit_form_inv:
  assumes k: "k < length (inflight s)" and inv: "form_inv s"
  shows "form_inv (settleSubmit T env k s)"
proof -
  obtain b p where bp: "inflight s ! k = (b, p)" by (cases "inflight s ! k")
  obtain res ai' where r: "generateItinerary T env p (ai s) = (res, ai')"
    by (cases "generateItinerary T env p (ai s)")
  from k bp have "(b, p) \<in> set (inflight s)" by (metis nth_mem)
  with inv have d: "1 \<le> ip_duration p" by (auto simp: form_inv_def list_all_iff request_wf_def)
  have rest: "list_all (\<lambda>(b, p). request_wf b p) (take k (inflight s) @ drop (Suc k) (inflight s))"
    using inv set_remove_nth_subset [of k "inflight s"] by (auto simp: form_inv_def list_all_iff)
  show ?thesis
    using inv d rest by (cases res) (auto simp: settleSubmit_def bp r form_inv_def)
qed

lemma handle_form_inv:
  assumes "enabled s e" and "form_inv s"
  shows "form_inv (handle T env e s)"
proof (cases e)
  case (GenerationSettles k)
  with assms show ?thesis by (simp add: enabled_def settleSubmit_form_inv)
next
  case (ToggleInterest i)
  with assms show ?thesis
    by (auto simp: enabled_def form_inv_def form_handler_defs set_set_toggle)
next
  case (EditDuration v)
  with assms show ?thesis by (simp add: form_inv_def)
next
  case Submit
  with assms show ?thesis
    by (auto simp: enabled_def form_inv_def form_handler_defs handleSubmit_request_wf
        split: option.splits)
qed (use assms in \<open>auto simp: enabled_def form_inv_def form_handler_defs interestOptions_def
       split: option.splits\<close>)

lemma reachable_form_inv: "form_reachable T env s \<Longrightarrow> form_inv s"
proof (induction rule: form_reachable.induct)
  case init
  show ?case by (rule form_inv_init)
next
  case (step s s')
  then show ?case by (auto elim: form_step.cases intro: handle_form_inv)
qed

lemma run_reachable:
  "run T env s es = Some s' \<Longrightarrow> form_reachable T env s \<Longrightarrow> form_reachable T env s'"
proof (induction es arbitrary: s)
  case Nil
  then show ?case by simp
next
  case (Cons e es)
  then have en: "enabled s e" and r: "run T env (handle T env e s) es = Some s'"
    by (simp_all split: if_splits)
  from Cons.prems(2) en have "form_reachable T env (handle T env e s)"
    by (blast intro: form_reachable.step form_step.step)
  with r show ?case by (rule Cons.IH)
qed

lemma run_append:
  "run T env s (xs @ ys) = (case run T env s xs of None \<Rightarrow> None | Some s' \<Rightarrow> run T env s' ys)"
  by (induction xs arbitrary: s) auto

text \<open>A browser session without an API key, for the closed instances below.\<close>

definition no_key_env :: ai_env where
  "no_key_env = \<lparr>API_KEY = None, generateContent = (\<lambda>_ _. Resp None), jitter = (\<lambda>_. 0)\<rparr>"

text \<open>The user's path to a generated itinerary for Agadir, 5 days, Confort, no interests:
  the form filled in and submitted, then the generation settling.\<close>

definition agadir_form_events :: "ui_event list" where
  "agadir_form_events =
     [SelectRegion Agadir, EditName ''Amina'', EditEmail ''amina@example.com'',
      EditPhone ''0612345678'', EditDuration ''5'', Submit]"

definition agadir_booking_events :: "ui_event list" where
  "agadir_booking_events = agadir_form_events @ [GenerationSettles 0]"

definition agadir_pending :: form_state where
  "agadir_pending =
     form_init\<lparr>name := ''Amina'', email := ''amina@example.com'', phone := ''0612345678'',
       region := Some Agadir, duration := 5, isLoading := True,
       inflight := [(Confort, \<lparr>ip_region = Agadir, ip_interests = [], ip_duration = 5,
                                ip_budget = ''Confort''\<rparr>)]\<rparr>"

definition agadir_quote :: "gemini_texts \<Rightarrow> form_state" where
  "agadir_quote T =
     form_init\<lparr>name := ''Amina'', email := ''amina@example.com'', phone := ''0612345678'',
       region := Some Agadir, duration := 5, itinerary := Some (fallbackItinerary T),
       finalPrice := Some 44800, ai := \<lparr>calls = 0, waits = [1500], log = []\<rparr>\<rparr>"

lemmas form_eval_simps = form_handler_defs enabled_def form_init_def interestOptions_def
  settleSubmit_def generateItinerary_def no_key_env_def js_trim_def js_ws_def
  durationInput_def js_parseInt10_def js_is_digit_def js_digits_value_def js_digit_val_def
  AGADIR_INTERESTS_def REGION_INTERESTS_def

lemma agadir_form_run: "run T no_key_env form_init agadir_form_events = Some agadir_pending"
  by (simp add: agadir_form_events_def agadir_pending_def form_eval_simps)

lemma agadir_booking_run:
  "run T no_key_env form_init agadir_booking_events = Some (agadir_quote T)"
  unfolding agadir_booking_events_def run_append agadir_form_run
  by (simp add: agadir_pending_def agadir_quote_def form_eval_simps)

lemma agadir_pending_reachable: "form_reachable T no_key_env agadir_pending"
  by (rule run_reachable [OF agadir_form_run form_reachable.init])

lemma agadir_quote_reachable: "form_reachable T no_key_env (agadir_quote T)"
  by (rule run_reachable [OF agadir_booking_run form_reachable.init])

subsection \<open>Properties of the form\<close>

text \<open>C11 (interests_valid): in every reachable state the chosen interests are distinct and are
  options of the current region: switching region never leaves interests of the other
  region selected.\<close>

theorem reachable_interests_valid:
  "form_reachable T env s \<Longrightarrow>
   distinct (interests s) \<and> set (interests s) \<subseteq> set (interestOptions (region s))"
  by (drule reachable_form_inv) (simp add: form_inv_def)

theorem reachable_interests_valid_witness:
  "form_reachable sample_texts no_key_env
     (form_init\<lparr>region := Some Region, interests := [NuitsBivouac]\<rparr>)
   \<and> distinct [NuitsBivouac]
   \<and> set [NuitsBivouac] \<subseteq> set (interestOptions (Some Region))"
proof -
  have run: "run sample_texts no_key_env form_init [SelectRegion Region, ToggleInterest NuitsBivouac]
      = Some (form_init\<lparr>region := Some Region, interests := [NuitsBivouac]\<rparr>)"
    by (simp add: form_eval_simps set_toggle_def)
  then have r: "form_reachable sample_texts no_key_env (form_init\<lparr>region := Some Region, interests := [NuitsBivouac]\<rparr>)"
    by (rule run_reachable) (rule form_reachable.init)
  from r reachable_interests_valid [OF r] show ?thesis by simp
qed

text \<open>C23 (duration_invariant): in every reachable state the form's duration is at least one day.\<close>

theorem reachable_duration_ge_1: "form_reachable T env s \<Longrightarrow> 1 \<le> duration s"
  by (drule reachable_form_inv) (simp add: form_inv_def)

theorem reachable_duration_ge_1_witness:
  "form_reachable sample_texts no_key_env (agadir_quote sample_texts)
   \<and> 1 \<le> duration (agadir_quote sample_texts)"
  using reachable_duration_ge_1 [OF agadir_quote_reachable] agadir_quote_reachable by simp

text \<open>C12 (price_invariant): in every reachable state a stored price is positive, so the
  \<open>{finalPrice && ...}\<close> guards of the itinerary view and the modal never hide it.\<close>

theorem reachable_price_positive:
  "form_reachable T env s \<Longrightarrow> finalPrice s = Some p \<Longrightarrow> 0 < p"
  by (drule reachable_form_inv) (simp add: form_inv_def)

theorem reachable_price_positive_witness:
  "form_reachable sample_texts no_key_env (agadir_quote sample_texts)
   \<and> finalPrice (agadir_quote sample_texts) = Some 44800 \<and> (0::int) < 44800"
  using reachable_price_positive [OF agadir_quote_reachable, of sample_texts 44800]
    agadir_quote_reachable
  by (simp add: agadir_quote_def)

text \<open>C26 (request_type): every request a reachable state has pending is a well-formed
  \<open>ItineraryParams\<close>: a duration of at least one day, the label of the captured tier as
  budget, and distinct interest labels drawn from the options of its region.\<close>

theorem reachable_requests_well_formed:
  "form_reachable T env s \<Longrightarrow> (b, p) \<in> set (inflight s) \<Longrightarrow>
   1 \<le> ip_duration p \<and> ip_budget p = budget_label b \<and> distinct (ip_interests p)
   \<and> set (ip_interests p) \<subseteq> interest_label ` set (interestOptions (Some (ip_region p)))"
  by (drule reachable_form_inv) (auto simp: form_inv_def list_all_iff request_wf_def)

theorem reachable_requests_well_formed_witness:
  "form_reachable sample_texts no_key_env agadir_pending
   \<and> (Confort, \<lparr>ip_region = Agadir, ip_interests = [], ip_duration = 5, ip_budget = ''Confort''\<rparr>)
       \<in> set (inflight agadir_pending)
   \<and> ip_budget \<lparr>ip_region = Agadir, ip_interests = [], ip_duration = 5, ip_budget = ''Confort''\<rparr>
       = budget_label Confort"
  using reachable_requests_well_formed [OF agadir_pending_reachable, of Confort
      "\<lparr>ip_region = Agadir, ip_interests = [], ip_duration = 5, ip_budget = ''Confort''\<rparr>"]
    agadir_pending_reachable
  by (simp add: agadir_pending_def)

text \<open>C27 (validation_unreachable): the validation message of \<open>handleSubmit\<close> is never shown:
  the submit button is disabled while the form is invalid, so that branch is dead.\<close>

theorem reachable_no_validation_message:
  "form_reachable T env s \<Longrightarrow> error s \<noteq> Some ValidationMessage"
  by (drule reachable_form_inv) (simp add: form_inv_def)

theorem reachable_no_validation_message_witness:
  "form_reachable sample_texts no_key_env form_init \<and> error form_init \<noteq> Some ValidationMessage"
  using reachable_no_validation_message [OF form_reachable.init [of sample_texts no_key_env]]
  by (simp add: form_reachable.init)

text \<open>C20 (region_clears): choosing a different region (or none) stores it and empties the
  interest selection, whatever was selected before.\<close>

theorem setRegion_clears_interests:
  "region s \<noteq> r \<Longrightarrow> region (setRegion r s) = r \<and> interests (setRegion r s) = []"
  by (simp add: setRegion_def)

theorem setRegion_clears_interests_witness:
  "region (form_init\<lparr>region := Some Agadir, interests := [GolfResorts]\<rparr>) \<noteq> Some Region
   \<and> region (setRegion (Some Region) (form_init\<lparr>region := Some Agadir, interests := [GolfResorts]\<rparr>)) = Some Region
   \<and> interests (setRegion (Some Region) (form_init\<lparr>region := Some Agadir, interests := [GolfResorts]\<rparr>)) = []"
  using setRegion_clears_interests [of "form_init\<lparr>region := Some Agadir, interests := [GolfResorts]\<rparr>" "Some Region"]
  by simp

text \<open>C21 (toggle_interest): \<open>handleInterestChange\<close> flips the membership of the clicked interest
  and leaves every other interest as it was.\<close>

theorem handleInterestChange_toggles:
  "(i \<in> set (interests (handleInterestChange i s)) \<longleftrightarrow> i \<notin> set (interests s))
   \<and> (\<forall>j. j \<noteq> i \<longrightarrow> (j \<in> set (interests (handleInterestChange i s)) \<longleftrightarrow> j \<in> set (interests s)))"
  by (auto simp: handleInterestChange_def set_set_toggle)

theorem handleInterestChange_toggles_witness:
  "GolfResorts \<in> set (interests (handleInterestChange GolfResorts form_init))
   \<and> (FarnientePlage \<in> set (interests (handleInterestChange GolfResorts form_init))
        \<longleftrightarrow> FarnientePlage \<in> set (interests form_init))"
  using handleInterestChange_toggles [of GolfResorts form_init]
  by (simp add: form_init_def)

text \<open>C18 (submit_valid): submitting a valid form starts loading, clears the error, the
  itinerary and the price, and issues one request with the current region, interests in
  selection order, duration and budget.\<close>

theorem handleSubmit_valid:
  "isFormValid s \<Longrightarrow> region s = Some r \<Longrightarrow>
   handleSubmit s =
     s\<lparr>isLoading := True, error := None, itinerary := None, finalPrice := None,
       inflight := inflight s @
         [(budget s, \<lparr>ip_region = r, ip_interests = map interest_label (interests s),
                      ip_duration = duration s, ip_budget = budget_label (budget s)\<rparr>)]\<rparr>"
  by (simp add: handleSubmit_def)

theorem handleSubmit_valid_witness:
  "isFormValid (form_init\<lparr>name := ''A'', email := ''a@b'', phone := ''1'', region := Some Agadir\<rparr>)
   \<and> handleSubmit (form_init\<lparr>name := ''A'', email := ''a@b'', phone := ''1'', region := Some Agadir\<rparr>)
     = form_init\<lparr>name := ''A'', email := ''a@b'', phone := ''1'', region := Some Agadir,
         isLoading := True,
         inflight := [(Confort, \<lparr>ip_region = Agadir, ip_interests = [], ip_duration = 3,
                                 ip_budget = ''Confort''\<rparr>)]\<rparr>"
  using handleSubmit_valid [of "form_init\<lparr>name := ''A'', email := ''a@b'', phone := ''1'', region := Some Agadir\<rparr>" Agadir]
  by (simp add: isFormValid_def form_init_def js_trim_def js_ws_def)

text \<open>C13 (settle_success): when a pending generation succeeds, the form stores its text and
  the price \<open>calculatePrice\<close> of the budget and duration captured at submission, and stops
  loading.\<close>

theorem settleSubmit_success:
  "inflight s ! k = (b, p) \<Longrightarrow> generateItinerary T env p (ai s) = (Inr t, ai') \<Longrightarrow>
   itinerary (settleSubmit T env k s) = t
   \<and> finalPrice (settleSubmit T env k s) = Some (calculatePrice b (ip_duration p))
   \<and> \<not> isLoading (settleSubmit T env k s) \<and> ai (settleSubmit T env k s) = ai'"
  by (simp add: settleSubmit_def)

theorem settleSubmit_success_witness:
  "inflight (form_init\<lparr>inflight := [(Luxe, \<lparr>ip_region = Region, ip_interests = [], ip_duration = 2, ip_budget = ''Luxe''\<rparr>)]\<rparr>) ! 0
     = (Luxe, \<lparr>ip_region = Region, ip_interests = [], ip_duration = 2, ip_budget = ''Luxe''\<rparr>)
   \<and> finalPrice (settleSubmit sample_texts no_key_env 0
       (form_init\<lparr>inflight := [(Luxe, \<lparr>ip_region = Region, ip_interests = [], ip_duration = 2, ip_budget = ''Luxe''\<rparr>)]\<rparr>))
     = Some (calculatePrice Luxe 2)"
proof -
  let ?s = "form_init\<lparr>inflight := [(Luxe, \<lparr>ip_region = Region, ip_interests = [], ip_duration = 2, ip_budget = ''Luxe''\<rparr>)]\<rparr>"
  have g: "generateItinerary sample_texts no_key_env \<lparr>ip_region = Region, ip_interests = [], ip_duration = 2, ip_budget = ''Luxe''\<rparr> (ai ?s)
      = (Inr (Some (fallbackItinerary sample_texts)), \<lparr>calls = 0, waits = [1500], log = []\<rparr>)"
    by (simp add: generateItinerary_def no_key_env_def form_init_def)
  show ?thesis using settleSubmit_success [of ?s 0, OF _ g] by simp
qed

text \<open>C19 (settle_failure): when a pending generation fails, the form shows the generic error
  message, stops loading and stores no itinerary and no price.\<close>

theorem settleSubmit_failure:
  "inflight s ! k = (b, p) \<Longrightarrow> generateItinerary T env p (ai s) = (Inl e, ai') \<Longrightarrow>
   error (settleSubmit T env k s) = Some GenerationMessage
   \<and> itinerary (settleSubmit T env k s) = itinerary s
   \<and> finalPrice (settleSubmit T env k s) = finalPrice s \<and> \<not> isLoading (settleSubmit T env k s)"
  by (simp add: settleSubmit_def)

theorem settleSubmit_failure_witness:
  "inflight (form_init\<lparr>inflight := [(Confort, \<lparr>ip_region = Agadir, ip_interests = [], ip_duration = 3, ip_budget = ''Confort''\<rparr>)]\<rparr>) ! 0
     = (Confort, \<lparr>ip_region = Agadir, ip_interests = [], ip_duration = 3, ip_budget = ''Confort''\<rparr>)
   \<and> error (settleSubmit sample_texts
       \<lparr>API_KEY = Some ''key'', generateContent = (\<lambda>_ _. Fail ''TypeError''), jitter = (\<lambda>_. 0)\<rparr> 0
       (form_init\<lparr>inflight := [(Confort, \<lparr>ip_region = Agadir, ip_interests = [], ip_duration = 3, ip_budget = ''Confort''\<rparr>)]\<rparr>))
     = Some GenerationMessage"
proof -
  let ?s = "form_init\<lparr>inflight := [(Confort, \<lparr>ip_region = Agadir, ip_interests = [], ip_duration = 3, ip_budget = ''Confort''\<rparr>)]\<rparr>"
  let ?env = "\<lparr>API_KEY = Some ''key'', generateContent = (\<lambda>_ _. Fail ''TypeError''), jitter = (\<lambda>_. 0 :: rat)\<rparr>"
  have g: "generateItinerary sample_texts ?env \<lparr>ip_region = Agadir, ip_interests = [], ip_duration = 3, ip_budget = ''Confort''\<rparr> (ai ?s)
      = (Inl ItineraryFailed, \<lparr>calls = 1, waits = [], log = [ErrNonRetriable ''TypeError'']\<rparr>)"
    by (simp add: generateItinerary_def form_init_def gcwr_stop ai_initialized_def isRateLimitError_def)
  show ?thesis using settleSubmit_failure [of ?s 0, OF _ g] by simp
qed

text \<open>C22 (full_reset): the reset timer after a confirmation clears the contact details, the
  region, the interests, the itinerary, the price and the banner, but keeps the duration
  and the budget.\<close>

theorem resetTimerFires_full_reset:
  "name (resetTimerFires s) = [] \<and> email (resetTimerFires s) = [] \<and> phone (resetTimerFires s) = []
   \<and> region (resetTimerFires s) = None \<and> interests (resetTimerFires s) = []
   \<and> itinerary (resetTimerFires s) = None \<and> finalPrice (resetTimerFires s) = None
   \<and> \<not> isConfirmed (resetTimerFires s) \<and> \<not> isLoading (resetTimerFires s)
   \<and> duration (resetTimerFires s) = duration s \<and> budget (resetTimerFires s) = budget s"
  by (simp add: resetTimerFires_def handleFullReset_def handleReset_def setRegion_def)

subsection \<open>Interleavings the page allows\<close>




end
