(* ===== verification/FormProgress.thy ===== *)
theory FormProgress
  imports ServicesSection
begin

text \<open>
  Progress of the trip form: the asynchronous work a state has pending (the awaited
  generations, the 1500 ms payment timers, the 5 s reset timers) can always complete.
  Firing first every pending generation, then every payment timer, then every reset timer
  (those already pending and the one each payment adds through
  \<open>handleConfirmBooking\<close>) is a run of enabled events from every reachable state, and it
  ends in a state with nothing pending and no spinner.  Each group of events is one lemma
  by induction on the number of pending items.
\<close>

lemma settleSubmit_bookkeeping:
  "inflight (settleSubmit T env k s) = take k (inflight s) @ drop (Suc k) (inflight s)
   \<and> pendingConfirm (settleSubmit T env k s) = pendingConfirm s
   \<and> pendingReset (settleSubmit T env k s) = pendingReset s
   \<and> \<not> isLoading (settleSubmit T env k s)"
  by (auto simp: settleSubmit_def Let_def split: prod.splits sum.splits)

lemma run_replicate_Suc:
  "enabled s e \<Longrightarrow> run T env s (replicate (Suc n) e) = run T env (handle T env e s) (replicate n e)"
  by simp

lemma run_settle_all:
  "\<exists>s'. run T env s (replicate (length (inflight s)) (GenerationSettles 0)) = Some s'
     \<and> inflight s' = [] \<and> pendingConfirm s' = pendingConfirm s \<and> pendingReset s' = pendingReset s
     \<and> (isLoading s' \<longrightarrow> isLoading s \<and> inflight s = [])"
proof (induction "length (inflight s)" arbitrary: s)
  case 0
  then show ?case by simp
next
  case (Suc n)
  let ?s1 = "settleSubmit T env 0 s"
  have en: "enabled s (GenerationSettles 0)"
    using Suc.hyps(2) by (simp add: enabled_def flip: Suc.hyps(2))
  have n: "n = length (inflight ?s1)"
    using Suc.hyps(2) settleSubmit_bookkeeping [of T env 0 s] by simp
  obtain s' where s': "run T env ?s1 (replicate n (GenerationSettles 0)) = Some s'"
    "inflight s' = []" "pendingConfirm s' = pendingConfirm ?s1" "pendingReset s' = pendingReset ?s1"
    "isLoading s' \<longrightarrow> isLoading ?s1 \<and> inflight ?s1 = []"
    using Suc.hyps(1) [OF n] n by auto
  have "run T env s (replicate (length (inflight s)) (GenerationSettles 0)) = Some s'"
    using run_replicate_Suc [OF en, of T env n] s'(1) by (simp flip: Suc.hyps(2))
  with s' show ?case using settleSubmit_bookkeeping [of T env 0 s] by auto
qed

lemma run_payment_timers:
  "\<exists>s'. run T env s (replicate (pendingConfirm s) PaymentTimerFires) = Some s'
     \<and> inflight s' = inflight s \<and> isLoading s' = isLoading s \<and> pendingConfirm s' = 0
     \<and> pendingReset s' = pendingReset s + pendingConfirm s"
proof (induction "pendingConfirm s" arbitrary: s)
  case 0
  then show ?case by simp
next
  case (Suc n)
  let ?s1 = "paymentTimerFires s"
  have en: "enabled s PaymentTimerFires" by (simp add: enabled_def flip: Suc.hyps(2))
  have n: "n = pendingConfirm ?s1"
    by (simp add: paymentTimerFires_def handleConfirmBooking_def flip: Suc.hyps(2))
  obtain s' where s': "run T env ?s1 (replicate n PaymentTimerFires) = Some s'"
    "inflight s' = inflight ?s1" "isLoading s' = isLoading ?s1" "pendingConfirm s' = 0"
    "pendingReset s' = pendingReset ?s1 + pendingConfirm ?s1"
    using Suc.hyps(1) [OF n] n by auto
  have "run T env s (replicate (pendingConfirm s) PaymentTimerFires) = Some s'"
    using run_replicate_Suc [OF en, of T env n] s'(1) by (simp flip: Suc.hyps(2))
  with s' show ?case
    by (simp add: paymentTimerFires_def handleConfirmBooking_def flip: Suc.hyps(2))
qed

lemma run_reset_timers:
  "\<exists>s'. run T env s (replicate (pendingReset s) ResetTimerFires) = Some s'
     \<and> inflight s' = inflight s \<and> pendingConfirm s' = pendingConfirm s \<and> pendingReset s' = 0
     \<and> (isLoading s' \<longrightarrow> isLoading s)"
proof (induction "pendingReset s" arbitrary: s)
  case 0
  then show ?case by simp
next
  case (Suc n)
  let ?s1 = "resetTimerFires s"
  have en: "enabled s ResetTimerFires" by (simp add: enabled_def flip: Suc.hyps(2))
  have s1: "inflight ?s1 = inflight s \<and> pendingConfirm ?s1 = pendingConfirm s
      \<and> pendingReset ?s1 = pendingReset s - 1 \<and> \<not> isLoading ?s1"
    by (simp add: resetTimerFires_def handleFullReset_def handleReset_def setRegion_def)
  then have n: "n = pendingReset ?s1" by (simp flip: Suc.hyps(2))
  obtain s' where s': "run T env ?s1 (replicate n ResetTimerFires) = Some s'"
    "inflight s' = inflight ?s1" "pendingConfirm s' = pendingConfirm ?s1" "pendingReset s' = 0"
    "isLoading s' \<longrightarrow> isLoading ?s1"
    using Suc.hyps(1) [OF n] n by auto
  have "run T env s (replicate (pendingReset s) ResetTimerFires) = Some s'"
    using run_replicate_Suc [OF en, of T env n] s'(1) by (simp flip: Suc.hyps(2))
  with s' s1 show ?case by auto
qed

text \<open>C10 (form_quiescence): from every reachable state of the form, the pending
  generations, then the pending payment timers, then the reset timers can all fire (each
  is enabled when its turn comes); the page then has nothing pending, no spinner, and the
  state reached is again reachable.\<close>

theorem form_progress:
  "form_reachable T env s \<Longrightarrow>
   \<exists>s'. run T env s (replicate (length (inflight s)) (GenerationSettles 0)
                      @ replicate (pendingConfirm s) PaymentTimerFires
                      @ replicate (pendingReset s + pendingConfirm s) ResetTimerFires) = Some s'
     \<and> inflight s' = [] \<and> pendingConfirm s' = 0 \<and> pendingReset s' = 0 \<and> \<not> isLoading s'
     \<and> form_reachable T env s'"
proof -
  assume r: "form_reachable T env s"
  obtain s1 where s1: "run T env s (replicate (length (inflight s)) (GenerationSettles 0)) = Some s1"
    "inflight s1 = []" "pendingConfirm s1 = pendingConfirm s" "pendingReset s1 = pendingReset s"
    "isLoading s1 \<longrightarrow> isLoading s \<and> inflight s = []"
    using run_settle_all [of T env s] by blast
  obtain s2 where s2: "run T env s1 (replicate (pendingConfirm s1) PaymentTimerFires) = Some s2"
    "inflight s2 = inflight s1" "isLoading s2 = isLoading s1" "pendingConfirm s2 = 0"
    "pendingReset s2 = pendingReset s1 + pendingConfirm s1"
    using run_payment_timers [of T env s1] by blast
  obtain s3 where s3: "run T env s2 (replicate (pendingReset s2) ResetTimerFires) = Some s3"
    "inflight s3 = inflight s2" "pendingConfirm s3 = pendingConfirm s2" "pendingReset s3 = 0"
    "isLoading s3 \<longrightarrow> isLoading s2"
    using run_reset_timers [of T env s2] by blast
  have "isLoading s \<longrightarrow> inflight s \<noteq> []"
    using reachable_form_inv [OF r] by (simp add: form_inv_def)
  then have "\<not> isLoading s3" using s1(5) s2(3) s3(5) by blast
  moreover have run: "run T env s (replicate (length (inflight s)) (GenerationSettles 0)
                      @ replicate (pendingConfirm s) PaymentTimerFires
                      @ replicate (pendingReset s + pendingConfirm s) ResetTimerFires) = Some s3"
    using s1 s2 s3 by (simp add: run_append)
  ultimately show ?thesis
    using s1 s2 s3 run_reachable [OF run r] by auto
qed

theorem form_progress_witness:
  "form_reachable sample_texts no_key_env agadir_pending
   \<and> (\<exists>s'. run sample_texts no_key_env agadir_pending
          (replicate (length (inflight agadir_pending)) (GenerationSettles 0)
           @ replicate (pendingConfirm agadir_pending) PaymentTimerFires
           @ replicate (pendingReset agadir_pending + pendingConfirm agadir_pending) ResetTimerFires)
          = Some s'
        \<and> inflight s' = [] \<and> pendingConfirm s' = 0 \<and> pendingReset s' = 0 \<and> \<not> isLoading s'
        \<and> form_reachable sample_texts no_key_env s')"
  using form_progress [OF agadir_pending_reachable] agadir_pending_reachable by simp

end
