(* ===== verification/FinalizationModal.thy ===== *)
theory FinalizationModal
  imports ServicesSection
begin

text \<open>
  What the finalisation modal shows.  \<open>ServicesSection.tsx\<close> renders it on every render
  with \<open>isOpen={isFinalizeModalOpen}\<close> and the \<open>details\<close> object of lines 262--267,
  built from the current state.  \<open>BookingFinalizationModal.tsx\<close> returns \<open>null\<close> when
  closed (line 20), and otherwise shows the contact details, the destination (line 63),
  the duration, the budget, the interests when there are any (lines 66--68), the price
  under \<open>{details.price && ...}\<close> (lines 73--77), and the confirm button, disabled and
  relabelled while submitting (lines 110--122).  Its handlers are \<open>confirmPayment\<close>,
  \<open>paymentTimerFires\<close> and \<open>closeFinalize\<close> of the form's model.  The static headings
  and lists are not modelled; the price is kept as the number that \<open>Intl.NumberFormat\<close>
  formats.
\<close>

text \<open>\<open>type Region = 'Agadir' | 'Region'\<close> (ServicesSection.tsx line 8) as text.\<close>

fun region_label :: "region \<Rightarrow> string" where
  "region_label Agadir = ''Agadir''"
| "region_label Region = ''Region''"

record finalize_details =
  d_name :: string
  d_email :: string
  d_phone :: string
  d_interests :: "string list"
  d_duration :: int
  d_budget :: string
  d_region :: string
  d_price :: "int option"

text \<open>The \<open>details\<close> prop: \<open>Array.from(interests)\<close> in selection order, \<open>region || ''\<close>,
  \<open>price: finalPrice\<close>.\<close>

definition finalizeDetails :: "form_state \<Rightarrow> finalize_details" where
  "finalizeDetails s =
     \<lparr>d_name = name s, d_email = email s, d_phone = phone s,
      d_interests = map interest_label (interests s), d_duration = duration s,
      d_budget = budget_label (budget s),
      d_region = (case region s of None \<Rightarrow> [] | Some r \<Rightarrow> region_label r),
      d_price = finalPrice s\<rparr>"

text \<open>The lines of the summary, in the order of the JSX.  \<open>{details.price && <p/>}\<close>
  renders nothing for \<open>null\<close> and the text \<open>0\<close> for the number 0.\<close>

datatype summary_line =
    SName string | SEmail string | SPhone string | SDestination string | SDuration int
  | SBudget string | SInterests string | SPrice int | SText string

definition EXPLORATION_LABEL :: string where
  "EXPLORATION_LABEL = ''Exploration de la r'' @ CHR 0xE9 # ''gion''"

definition summary :: "finalize_details \<Rightarrow> summary_line list" where
  "summary d =
     [SName (d_name d), SEmail (d_email d), SPhone (d_phone d),
      SDestination (if d_region d = ''Region'' then EXPLORATION_LABEL else ''Agadir''),
      SDuration (d_duration d), SBudget (d_budget d)]
     @ (if 0 < length (d_interests d) then [SInterests (js_join '', '' (d_interests d))] else [])
     @ (case d_price d of None \<Rightarrow> [] | Some p \<Rightarrow> if p = 0 then [SText ''0''] else [SPrice p])"




lemma summary_price_lines:
  "(case finalPrice s of None \<Rightarrow> True | Some p \<Rightarrow> 0 < p) \<Longrightarrow>
   SText ''0'' \<notin> set (summary (finalizeDetails s))
   \<and> (SPrice p \<in> set (summary (finalizeDetails s)) \<longleftrightarrow> finalPrice s = Some p)"
  by (auto simp: summary_def finalizeDetails_def split: option.splits intro!: exI [of _ p])

text \<open>C24 (summary_price): in every reachable state the modal's summary has a price line
  exactly when the form holds a price, with that price, and never the bare text \<open>0\<close>
  that \<open>{details.price && ...}\<close> would render for a zero price.\<close>

theorem reachable_summary_price:
  "form_reachable T env s \<Longrightarrow>
   SText ''0'' \<notin> set (summary (finalizeDetails s))
   \<and> (SPrice p \<in> set (summary (finalizeDetails s)) \<longleftrightarrow> finalPrice s = Some p)"
  using reachable_form_inv summary_price_lines by (auto simp: form_inv_def)

theorem reachable_summary_price_witness:
  "form_reachable sample_texts no_key_env (agadir_quote sample_texts)
   \<and> SText ''0'' \<notin> set (summary (finalizeDetails (agadir_quote sample_texts)))
   \<and> SPrice 44800 \<in> set (summary (finalizeDetails (agadir_quote sample_texts)))"
  using reachable_summary_price [OF agadir_quote_reachable, of sample_texts 44800] agadir_quote_reachable
  by (simp add: agadir_quote_def)


end
