(* ===== verification/ItineraryView.thy ===== *)
theory ItineraryView
  imports Prelude
begin

text \<open>
  The Markdown substitution of the itinerary view, \<open>src/components/ServicesSection.tsx\<close>
  line 244: the itinerary text goes through
  \<open>.replace(/### (.*)/g, '<h4 ...>$1</h4>')\<close> and then
  \<open>.replace(/\*\*(.*?)\*\*/g, '<strong ...>$1</strong>')\<close>, and the result is set as
  \<open>innerHTML\<close>.  Each global replacement scans left to right: where the pattern matches,
  the match is replaced and the scan resumes after it; elsewhere one character is kept.
  \<open>.\<close> matches any code unit but a line terminator; \<open>.*\<close> is greedy (to the end of
  the line) and \<open>.*?\<close> lazy (to the first closing \<open>**\<close> on the line).
\<close>

definition js_line_terminator :: "char \<Rightarrow> bool" where
  "js_line_terminator c \<longleftrightarrow> c = CHR 0x0A \<or> c = CHR 0x0D"

definition H4_OPEN :: string where
  \<open>H4_OPEN = ''<h4 class="text-xl font-bold text-brand-green mt-4 mb-2">''\<close>

definition H4_CLOSE :: string where
  "H4_CLOSE = ''</h4>''"

definition STRONG_OPEN :: string where
  \<open>STRONG_OPEN = ''<strong class="font-semibold text-brand-green">''\<close>

definition STRONG_CLOSE :: string where
  "STRONG_CLOSE = ''</strong>''"

text \<open>\<open>/### (.*)/g\<close>: the heading text is the rest of the line.\<close>

function replace_headings :: "string \<Rightarrow> string" where
  "replace_headings [] = []"
| "replace_headings (c # cs) =
     (if prefix ''### '' (c # cs)
      then H4_OPEN @ takeWhile (\<lambda>x. \<not> js_line_terminator x) (drop 4 (c # cs)) @ H4_CLOSE
           @ replace_headings (dropWhile (\<lambda>x. \<not> js_line_terminator x) (drop 4 (c # cs)))
      else c # replace_headings cs)"
  by pat_completeness auto
termination
proof (relation "measure length")
  fix c :: char and cs :: string
  assume "prefix ''### '' (c # cs)"
  then have "4 \<le> length (c # cs)" by (auto dest: prefix_length_le)
  moreover have "length (dropWhile (\<lambda>x. \<not> js_line_terminator x) (drop 4 (c # cs))) \<le> length (drop 4 (c # cs))"
    by (rule length_dropWhile_le)
  ultimately show "(dropWhile (\<lambda>x. \<not> js_line_terminator x) (drop 4 (c # cs)), c # cs) \<in> measure length"
    by simp
qed auto

text \<open>The lazy \<open>(.*?)\*\*\<close>: the body up to the first \<open>**\<close>, and what follows it; no
  match when a line terminator or the end of the text comes first.\<close>

fun close_bold :: "string \<Rightarrow> (string \<times> string) option" where
  "close_bold [] = None"
| "close_bold (c # cs) =
     (if prefix ''**'' (c # cs) then Some ([], drop 2 (c # cs))
      else if js_line_terminator c then None
      else map_option (\<lambda>(b, r). (c # b, r)) (close_bold cs))"

lemma close_bold_length: "close_bold xs = Some (b, r) \<Longrightarrow> length r \<le> length xs"
  by (induction xs arbitrary: b rule: close_bold.induct) (auto split: if_splits)

function replace_bold :: "string \<Rightarrow> string" where
  "replace_bold [] = []"
| "replace_bold (c # cs) =
     (if prefix ''**'' (c # cs)
      then (case close_bold (drop 2 (c # cs)) of
              Some (b, r) \<Rightarrow> STRONG_OPEN @ b @ STRONG_CLOSE @ replace_bold r
            | None \<Rightarrow> c # replace_bold cs)
      else c # replace_bold cs)"
  by pat_completeness auto
termination
  by (relation "measure length")
     (force dest: close_bold_length prefix_length_le simp: le_imp_less_Suc)+

definition renderItinerary :: "string \<Rightarrow> string" where
  "renderItinerary itinerary = replace_bold (replace_headings itinerary)"

lemma prefix_hash_head: "prefix ''### '' (c # cs) \<Longrightarrow> c = CHR ''#''"
  by (simp add: prefix_def)

lemma prefix_star_head: "prefix ''**'' (c # cs) \<Longrightarrow> c = CHR ''*''"
  by (simp add: prefix_def)

lemma replace_headings_no_hash: "CHR ''#'' \<notin> set t \<Longrightarrow> replace_headings t = t"
proof (induction t rule: replace_headings.induct)
  case (2 c cs)
  then have "\<not> prefix ''### '' (c # cs)" by (auto dest: prefix_hash_head)
  with 2 show ?case by simp
qed simp

lemma replace_bold_no_star: "CHR ''*'' \<notin> set t \<Longrightarrow> replace_bold t = t"
proof (induction t rule: replace_bold.induct)
  case (2 c cs)
  then have "\<not> prefix ''**'' (c # cs)" by (auto dest: prefix_star_head)
  with 2 show ?case by simp
qed simp

lemma close_bold_found:
  "CHR ''*'' \<notin> set b \<Longrightarrow> \<forall>x \<in> set b. \<not> js_line_terminator x \<Longrightarrow>
   close_bold (b @ ''**'' @ r) = Some (b, r)"
proof (induction b)
  case Nil
  then show ?case by simp
next
  case (Cons c b)
  then have "\<not> prefix ''**'' (c # b @ ''**'' @ r)" by (auto dest: prefix_star_head)
  with Cons show ?case by simp
qed

lemma replace_headings_match:
  "prefix ''### '' s \<Longrightarrow>
   replace_headings s = H4_OPEN @ takeWhile (\<lambda>x. \<not> js_line_terminator x) (drop 4 s) @ H4_CLOSE
     @ replace_headings (dropWhile (\<lambda>x. \<not> js_line_terminator x) (drop 4 s))"
  by (cases s) simp_all

lemma replace_headings_skip:
  "c \<noteq> CHR ''#'' \<Longrightarrow> replace_headings (c # cs) = c # replace_headings cs"
  by (auto dest: prefix_hash_head)

lemma takeWhile_line:
  "\<forall>x \<in> set l. \<not> js_line_terminator x \<Longrightarrow> js_line_terminator c \<Longrightarrow>
   takeWhile (\<lambda>x. \<not> js_line_terminator x) (l @ c # r) = l
   \<and> dropWhile (\<lambda>x. \<not> js_line_terminator x) (l @ c # r) = c # r"
  by (induction l) auto

text \<open>C38 (render_plain): text with no \<open>#\<close> and no \<open>*\<close> reaches \<open>innerHTML\<close> unchanged:
  the view escapes nothing, so markup in the generated itinerary is rendered as HTML.\<close>

theorem renderItinerary_plain:
  "CHR ''#'' \<notin> set t \<Longrightarrow> CHR ''*'' \<notin> set t \<Longrightarrow> renderItinerary t = t"
  by (simp add: renderItinerary_def replace_headings_no_hash replace_bold_no_star)

theorem renderItinerary_plain_witness:
  "CHR ''#'' \<notin> set ''<img src=x onerror=alert(1)>'' \<and> CHR ''*'' \<notin> set ''<img src=x onerror=alert(1)>''
   \<and> renderItinerary ''<img src=x onerror=alert(1)>'' = ''<img src=x onerror=alert(1)>''"
  using renderItinerary_plain [of "''<img src=x onerror=alert(1)>''"] by simp

text \<open>C39 (render_heading): a line starting with \<open>### \<close> becomes a heading whose text is the
  rest of the line, whatever it contains; the scan resumes at the line terminator.\<close>

theorem replace_headings_line:
  "\<forall>x \<in> set l. \<not> js_line_terminator x \<Longrightarrow> js_line_terminator c \<Longrightarrow>
   replace_headings (''### '' @ l @ c # r) = H4_OPEN @ l @ H4_CLOSE @ c # replace_headings r"
proof -
  assume l: "\<forall>x \<in> set l. \<not> js_line_terminator x" and c: "js_line_terminator c"
  then have "c \<noteq> CHR ''#''" by (auto simp: js_line_terminator_def)
  then have "replace_headings (c # r) = c # replace_headings r" by (rule replace_headings_skip)
  moreover have "prefix ''### '' (''### '' @ l @ c # r)" by simp
  ultimately show ?thesis
    using takeWhile_line [OF l c, of r] replace_headings_match [of "''### '' @ l @ c # r"]
    by (simp del: replace_headings.simps(2))
qed

theorem replace_headings_line_witness:
  "\<not> list_ex js_line_terminator ''Jour 1'' \<and> js_line_terminator (CHR 0x0A)
   \<and> replace_headings (''### '' @ ''Jour 1'' @ CHR 0x0A # ''Matin'')
       = H4_OPEN @ ''Jour 1'' @ H4_CLOSE @ CHR 0x0A # replace_headings ''Matin''"
  using replace_headings_line [of "''Jour 1''" "CHR 0x0A" "''Matin''"]
  by (simp add: js_line_terminator_def)

text \<open>C40 (render_bold): \<open>**b**\<close> with a body free of \<open>*\<close> and of line terminators becomes
  a \<open>strong\<close> element around \<open>b\<close>; the scan resumes after the closing marker.\<close>

theorem replace_bold_pair:
  "CHR ''*'' \<notin> set b \<Longrightarrow> \<forall>x \<in> set b. \<not> js_line_terminator x \<Longrightarrow>
   replace_bold (''**'' @ b @ ''**'' @ r) = STRONG_OPEN @ b @ STRONG_CLOSE @ replace_bold r"
  using close_bold_found [of b r] by simp

theorem replace_bold_pair_witness:
  "CHR ''*'' \<notin> set ''Le Flore'' \<and> \<not> list_ex js_line_terminator ''Le Flore''
   \<and> replace_bold (''**'' @ ''Le Flore'' @ ''**'' @ '' sur le port'')
       = STRONG_OPEN @ ''Le Flore'' @ STRONG_CLOSE @ replace_bold '' sur le port''"
  using replace_bold_pair [of "''Le Flore''" "'' sur le port''"]
  by (simp add: js_line_terminator_def)

end
