(* ===== verification/Catalog.thy ===== *)
theory Catalog
  imports Prelude
begin

text \<open>
  The service catalog \<open>SERVICES\<close> of \<open>src/constants.ts\<close> and the card that presents one
  service, \<open>src/docs/components/ServiceCard.tsx\<close>.  A service is the \<open>Service\<close> type
  the sources import: an \<open>id\<close>, a \<open>title\<close>, a \<open>description\<close> and an \<open>imageUrl\<close>.  The
  descriptions are kept as UTF-16 code units (\<open>js_utf16\<close>) because the third holds
  \<open>0x153\<close>; titles and URLs have code units below 256 only.  The card renders its
  service (image with the title as alternative text, heading, description, a button
  labelled \<open>Choisir\<close>) and the button hands the service to the \<open>onSelect\<close> prop.
\<close>

record service =
  service_id :: nat
  title :: string
  description :: js_utf16
  imageUrl :: string

definition SERVICES :: "service list" where
  "SERVICES =
    [\<lparr>service_id = 1, title = ''Location Villa & Appartement'',
      description = utf16 ''S'' @ [0xE9] @ utf16 ''jours de luxe dans des propri'' @ [0xE9]
        @ utf16 ''t'' @ [0xE9] @ utf16 ''s exclusives avec vues imprenables.'',
      imageUrl = ''https://picsum.photos/seed/villa/1920/1080''\<rparr>,
     \<lparr>service_id = 2, title = ''Location de Voiture'',
      description = utf16 ''Explorez le Maroc '' @ [0xE0] @ utf16 '' votre rythme avec notre flotte de v''
        @ [0xE9] @ utf16 ''hicules premium.'',
      imageUrl = ''https://picsum.photos/seed/car/1920/1080''\<rparr>,
     \<lparr>service_id = 3, title = ''Canyoning '' @ CHR 0xE0 # '' Tafraout'',
      description = utf16 ''Aventure et adr'' @ [0xE9] @ utf16 ''naline au c'' @ [0x153]
        @ utf16 ''ur des canyons spectaculaires de l'' @ [0x27] @ utf16 ''Atlas.'',
      imageUrl = ''https://picsum.photos/seed/canyoning/1920/1080''\<rparr>,
     \<lparr>service_id = 4, title = ''Parapente '' @ CHR 0xE0 # '' Aglou'',
      description = utf16 ''Survolez la c'' @ [0xF4] @ utf16 ''te atlantique et admirez des paysages ''
        @ [0xE0] @ utf16 '' couper le souffle.'',
      imageUrl = ''https://picsum.photos/seed/paragliding/1920/1080''\<rparr>,
     \<lparr>service_id = 5, title = ''Excursion en Quad'',
      description = utf16 ''Parcourez les dunes et les pistes d'' @ [0xE9] @ utf16 ''sertiques pour une exp''
        @ [0xE9] @ utf16 ''rience intense.'',
      imageUrl = ''https://picsum.photos/seed/quad/1920/1080''\<rparr>,
     \<lparr>service_id = 6, title = ''Location de V'' @ CHR 0xE9 # ''lo '' @ CHR 0xE0 # '' Tafraout'',
      description = utf16 ''D'' @ [0xE9] @ utf16 ''couvrez les roches peintes et les villages berb''
        @ [0xE8] @ utf16 ''res '' @ [0xE0] @ utf16 '' VTT.'',
      imageUrl = ''https://picsum.photos/seed/bike/1920/1080''\<rparr>,
     \<lparr>service_id = 7, title = ''Surf '' @ CHR 0xE0 # '' Taghazout/Aglou'',
      description = utf16 ''Domptez les vagues de spots de surf de renomm'' @ [0xE9] @ utf16 ''e mondiale.'',
      imageUrl = ''https://picsum.photos/seed/surf/1920/1080''\<rparr>,
     \<lparr>service_id = 8, title = ''Soir'' @ CHR 0xE9 # ''es & Clubbing '' @ CHR 0xE0 # '' Taghazout'',
      description = utf16 ''Acc'' @ [0xE8] @ utf16 ''s VIP aux meilleures beach parties et soir''
        @ [0xE9] @ utf16 ''es exclusives.'',
      imageUrl = ''https://picsum.photos/seed/party/1920/1080''\<rparr>]"

subsection \<open>The service card\<close>

record card_view =
  cv_src :: string
  cv_alt :: string
  cv_heading :: string
  cv_text :: js_utf16
  cv_button :: string

definition ServiceCard :: "service \<Rightarrow> card_view" where
  "ServiceCard service =
     \<lparr>cv_src = imageUrl service, cv_alt = title service, cv_heading = title service,
      cv_text = description service, cv_button = ''Choisir''\<rparr>"

text \<open>\<open>onClick={() => onSelect(service)}\<close>: the argument the card passes to its callback.\<close>

definition serviceCard_onClick :: "(service \<Rightarrow> 'a) \<Rightarrow> service \<Rightarrow> 'a" where
  "serviceCard_onClick onSelect service = onSelect service"

subsection \<open>Facts of the catalog\<close>

lemma length_SERVICES [simp]: "length SERVICES = 8"
  by (simp add: SERVICES_def)

text \<open>The React keys \<open>service.id\<close> of the header's layers are distinct, and so are the
  images: consecutive layers of the carousel never show the same picture.\<close>

lemma SERVICES_ids: "map service_id SERVICES = [1..<9]"
  by (simp add: SERVICES_def upt_rec)

lemma SERVICES_images_distinct: "distinct (map imageUrl SERVICES)"
  by (simp add: SERVICES_def)

end
