(* ===== verification/Header.thy ===== *)
theory Header
  imports Catalog
begin

text \<open>
  The header of \<open>src/components/Header.tsx\<close>: the background carousel over the
  catalog of \<open>Catalog\<close> and the tagline slot.  The carousel's state is \<open>currentImageIndex\<close>,
  initially 0; the interval callback, fired every 5000 ms, is \<open>carousel_tick\<close>; the
  rendering maps each service to its image and an opacity of 1 or 0.
\<close>

text \<open>\<open>setCurrentImageIndex((prevIndex) => (prevIndex + 1) % SERVICES.length)\<close>.\<close>

definition carousel_tick :: "nat \<Rightarrow> nat" where
  "carousel_tick prevIndex = (prevIndex + 1) mod length SERVICES"

text \<open>\<open>opacity: index === currentImageIndex ? 1 : 0\<close>.\<close>

definition image_opacity :: "nat \<Rightarrow> nat \<Rightarrow> nat" where
  "image_opacity currentImageIndex index = (if index = currentImageIndex then 1 else 0)"

text \<open>\<open>SERVICES.map((service, index) => ...)\<close>: the background image and opacity of each
  layer, in catalog order.\<close>

definition header_layers :: "nat \<Rightarrow> (string \<times> nat) list" where
  "header_layers currentImageIndex =
     map (\<lambda>(index, service). (imageUrl service, image_opacity currentImageIndex index))
       (enumerate 0 SERVICES)"

text \<open>The tagline slot (lines 40--48): the spinner while loading, else the tagline; an
  \<open>undefined\<close> tagline renders as nothing.\<close>

datatype tagline_display = Spinner | TaglineText js_string

definition header_tagline :: "js_string \<Rightarrow> bool \<Rightarrow> tagline_display" where
  "header_tagline tagline isLoading = (if isLoading then Spinner else TaglineText tagline)"

text \<open>The index after \<open>n\<close> firings of the interval, from the initial state 0.\<close>

definition carousel_after :: "nat \<Rightarrow> nat" where
  "carousel_after n = (carousel_tick ^^ n) 0"

lemma carousel_after_mod: "carousel_after n = n mod 8"
  by (induction n) (simp_all add: carousel_after_def carousel_tick_def mod_Suc_eq)

lemma visible_layers:
  "filter (\<lambda>(u, v). v = 1) (map (\<lambda>(index, s). (f s, image_opacity i index)) (enumerate k xs))
     = (if k \<le> i \<and> i < k + length xs then [(f (xs ! (i - k)), 1)] else [])"
proof (induction xs arbitrary: k)
  case (Cons x xs)
  show ?case
  proof (cases "i = k")
    case False
    then have "k \<le> i \<longleftrightarrow> Suc k \<le> i" by arith
    moreover have "Suc k \<le> i \<Longrightarrow> (x # xs) ! (i - k) = xs ! (i - Suc k)"
      by (simp add: Suc_diff_Suc [symmetric])
    ultimately show ?thesis
      using Cons.IH [of "Suc k"] False by (auto simp: image_opacity_def)
  qed (use Cons.IH [of "Suc k"] in \<open>simp add: image_opacity_def\<close>)
qed simp

text \<open>C35 (carousel_one_visible): after any number of firings of the interval the index
  stays inside the catalog, and exactly one background layer is opaque: that of service
  number \<open>n mod 8\<close>, so the carousel cycles through all eight images in catalog order,
  and the next firing always changes the picture.\<close>

theorem carousel_exactly_one_visible:
  "carousel_after n < length SERVICES
   \<and> filter (\<lambda>(u, v). v = 1) (header_layers (carousel_after n))
       = [(imageUrl (SERVICES ! (n mod length SERVICES)), 1)]
   \<and> imageUrl (SERVICES ! (n mod length SERVICES))
       \<noteq> imageUrl (SERVICES ! (carousel_after (Suc n)))"
proof -
  have "n mod 8 \<noteq> Suc n mod 8" by (simp add: mod_Suc)
  then have "imageUrl (SERVICES ! (n mod 8)) \<noteq> imageUrl (SERVICES ! (Suc n mod 8))"
    using SERVICES_images_distinct by (simp add: distinct_conv_nth)
  then show ?thesis
    using visible_layers [of imageUrl "n mod 8" 0 SERVICES]
    by (simp add: header_layers_def carousel_after_mod)
qed

end
