(* ===== verification/BookingModal.thy ===== *)
theory BookingModal
  imports Catalog Complex_Main
begin

text \<open>
  The service booking modal of \<open>src/components/BookingModal.tsx\<close>.  Its own state is
  the hook \<open>isSubmitting\<close>; \<open>handleSubmit\<close> sets it and schedules a 2000 ms timer
  that clears it and calls the \<open>onConfirm\<close> callback.  The five inputs are uncontrolled:
  the browser holds their values, and the form's \<open>submit\<close> event fires only when they
  pass HTML constraint validation (\<open>required\<close>, \<open>type="email"\<close>, \<open>type="number"\<close> with
  \<open>min="1"\<close>).  The submit button is \<open>disabled={isSubmitting}\<close>, and a form whose
  submit button is disabled is not submitted implicitly either.  \<open>onClose\<close> is the
  parent's callback and changes nothing here.  The model adds what the code does not
  store: the timers scheduled and not yet fired, the calls of \<open>onConfirm\<close> made so far,
  and the field values at each accepted submission.
\<close>

subsection \<open>The inputs and the browser's constraint validation\<close>

text \<open>The values the browser holds for the five inputs, after its value sanitization: the
  number input's value is empty or a valid floating-point number, here \<open>None\<close> or a
  rational; its \<open>defaultValue\<close> is 1.\<close>

record modal_fields =
  mf_name :: string
  mf_email :: string
  mf_phone :: string
  mf_date :: string
  mf_participants :: "rat option"

definition modal_fields_init :: modal_fields where
  "modal_fields_init = \<lparr>mf_name = [], mf_email = [], mf_phone = [], mf_date = [], mf_participants = Some 1\<rparr>"

definition html_alnum :: "char \<Rightarrow> bool" where
  "html_alnum c \<longleftrightarrow>
     (let n = of_char c :: nat in 48 \<le> n \<and> n \<le> 57 \<or> 65 \<le> n \<and> n \<le> 90 \<or> 97 \<le> n \<and> n \<le> 122)"

fun split_at_char :: "char \<Rightarrow> string \<Rightarrow> string list" where
  "split_at_char d [] = [[]]"
| "split_at_char d (c # cs) =
     (let ws = split_at_char d cs in if c = d then [] # ws else (c # hd ws) # tl ws)"

text \<open>The valid e-mail address of the HTML standard: a local part of letters, digits and
  \<open>.!#$%&'*+/=?^_`{|}~-\<close>, an \<open>@\<close>, and dot-separated labels of at most 63 letters,
  digits and hyphens that neither start nor end with a hyphen.\<close>

definition email_local_char :: "char \<Rightarrow> bool" where
  "email_local_char c \<longleftrightarrow> html_alnum c \<or> c \<in> set ''.!#$%&*+/=?^_`{|}~-'' \<or> c = CHR 0x27"

definition email_label :: "string \<Rightarrow> bool" where
  "email_label l \<longleftrightarrow>
     l \<noteq> [] \<and> length l \<le> 63 \<and> list_all (\<lambda>c. html_alnum c \<or> c = CHR ''-'') l
   \<and> hd l \<noteq> CHR ''-'' \<and> last l \<noteq> CHR ''-''"

definition valid_email :: "string \<Rightarrow> bool" where
  "valid_email s =
     (case split_at_char (CHR ''@'') s of
        [lp, dp] \<Rightarrow> lp \<noteq> [] \<and> list_all email_local_char lp
          \<and> list_all email_label (split_at_char (CHR ''.'') dp)
      | _ \<Rightarrow> False)"

text \<open>A value is missing when it is the empty string; the number input also suffers an
  underflow below \<open>min\<close> and a step mismatch off the grid \<open>1 + k\<close>.\<close>

definition modal_form_valid :: "modal_fields \<Rightarrow> bool" where
  "modal_form_valid f \<longleftrightarrow>
     mf_name f \<noteq> [] \<and> mf_email f \<noteq> [] \<and> valid_email (mf_email f) \<and> mf_phone f \<noteq> []
   \<and> mf_date f \<noteq> []
   \<and> (case mf_participants f of None \<Rightarrow> False | Some q \<Rightarrow> 1 \<le> q \<and> q = of_int \<lfloor>q\<rfloor>)"

subsection \<open>State, handlers and steps\<close>

record booking_modal =
  inputs :: modal_fields
  isSubmitting :: bool
  paymentTimers :: nat
  confirmations :: nat
  submitted :: "modal_fields list"

definition modal_init :: booking_modal where
  "modal_init =
     \<lparr>inputs = modal_fields_init, isSubmitting = False, paymentTimers = 0, confirmations = 0,
      submitted = []\<rparr>"

text \<open>\<open>handleSubmit\<close>: \<open>setIsSubmitting(true)\<close> and \<open>setTimeout(..., 2000)\<close>; it reads
  none of the inputs.\<close>

definition modal_handleSubmit :: "booking_modal \<Rightarrow> booking_modal" where
  "modal_handleSubmit m =
     m\<lparr>isSubmitting := True, paymentTimers := Suc (paymentTimers m),
       submitted := submitted m @ [inputs m]\<rparr>"

text \<open>The timer callback: \<open>setIsSubmitting(false); onConfirm();\<close>.\<close>

definition modal_timerFires :: "booking_modal \<Rightarrow> booking_modal" where
  "modal_timerFires m =
     m\<lparr>isSubmitting := False, paymentTimers := paymentTimers m - 1,
       confirmations := Suc (confirmations m)\<rparr>"

datatype modal_event = EditFields modal_fields | SubmitPayment | PaymentTimerFires | CloseModal

fun modal_enabled :: "booking_modal \<Rightarrow> modal_event \<Rightarrow> bool" where
  "modal_enabled m (EditFields f) = True"
| "modal_enabled m SubmitPayment = (\<not> isSubmitting m \<and> modal_form_valid (inputs m))"
| "modal_enabled m PaymentTimerFires = (0 < paymentTimers m)"
| "modal_enabled m CloseModal = True"

fun modal_step :: "booking_modal \<Rightarrow> modal_event \<Rightarrow> booking_modal" where
  "modal_step m (EditFields f) = m\<lparr>inputs := f\<rparr>"
| "modal_step m SubmitPayment = modal_handleSubmit m"
| "modal_step m PaymentTimerFires = modal_timerFires m"
| "modal_step m CloseModal = m"

inductive modal_reachable :: "booking_modal \<Rightarrow> bool" where
  init: "modal_reachable modal_init"
| step: "modal_reachable m \<Longrightarrow> modal_enabled m e \<Longrightarrow> modal_reachable (modal_step m e)"

subsection \<open>What the modal shows\<close>

text \<open>The selected service's line (line 38) and the submit button (lines 69--79): a
  spinner and no label while submitting, else the label.\<close>

record modal_display =
  md_selected :: string
  md_spinner :: bool
  md_label :: "string option"
  md_disabled :: bool

definition BookingModal_view :: "service \<Rightarrow> booking_modal \<Rightarrow> modal_display" where
  "BookingModal_view service m =
     \<lparr>md_selected = ''Service s'' @ CHR 0xE9 # ''lectionn'' @ CHR 0xE9 # '' : '' @ title service,
      md_spinner = isSubmitting m,
      md_label = (if isSubmitting m then None else Some (''Payer & R'' @ CHR 0xE9 # ''server'')),
      md_disabled = isSubmitting m\<rparr>"

subsection \<open>Invariant\<close>

text \<open>At most one payment is in progress and the button shows the spinner exactly while it
  is; every accepted submission passed validation, and each has been confirmed or is
  the one pending.\<close>

definition modal_inv :: "booking_modal \<Rightarrow> bool" where
  "modal_inv m \<longleftrightarrow>
     paymentTimers m \<le> 1 \<and> (isSubmitting m \<longleftrightarrow> paymentTimers m = 1)
   \<and> confirmations m + paymentTimers m = length (submitted m)
   \<and> list_all modal_form_valid (submitted m)"

lemmas modal_step_defs = modal_inv_def modal_handleSubmit_def modal_timerFires_def

lemma modal_step_inv: "modal_inv m \<Longrightarrow> modal_enabled m e \<Longrightarrow> modal_inv (modal_step m e)"
  by (cases e) (auto simp: modal_step_defs)

lemma modal_reachable_inv: "modal_reachable m \<Longrightarrow> modal_inv m"
  by (induction rule: modal_reachable.induct)
     (simp_all add: modal_step_inv, simp add: modal_inv_def modal_init_def)

text \<open>Sample values a visitor can type.\<close>

definition sample_fields :: modal_fields where
  "sample_fields =
     \<lparr>mf_name = ''Amina'', mf_email = ''amina@example.com'', mf_phone = ''0612345678'',
      mf_date = ''2026-12-01'', mf_participants = Some 2\<rparr>"

lemma sample_fields_valid: "modal_form_valid sample_fields"
  by (simp add: modal_form_valid_def sample_fields_def valid_email_def email_local_char_def
      email_label_def html_alnum_def)

lemma sample_submitted_reachable:
  "modal_reachable (modal_handleSubmit (modal_init\<lparr>inputs := sample_fields\<rparr>))"
proof -
  have e: "modal_reachable (modal_init\<lparr>inputs := sample_fields\<rparr>)"
    using modal_reachable.step [OF modal_reachable.init, of "EditFields sample_fields"] by simp
  show ?thesis
    using modal_reachable.step [OF e, of SubmitPayment] sample_fields_valid
    by (simp add: modal_init_def)
qed

text \<open>C34 (modal_one_payment): in every reachable state of the booking modal at most one
  simulated payment is pending, and the submit button is disabled exactly while it is:
  a double click cannot schedule two confirmations.\<close>

theorem modal_single_payment:
  "modal_reachable m \<Longrightarrow> paymentTimers m \<le> 1 \<and> (isSubmitting m \<longleftrightarrow> paymentTimers m = 1)"
  using modal_reachable_inv [of m] by (simp add: modal_inv_def)

theorem modal_single_payment_witness:
  "modal_reachable (modal_handleSubmit (modal_init\<lparr>inputs := sample_fields\<rparr>))
   \<and> paymentTimers (modal_handleSubmit (modal_init\<lparr>inputs := sample_fields\<rparr>)) \<le> 1
   \<and> (isSubmitting (modal_handleSubmit (modal_init\<lparr>inputs := sample_fields\<rparr>))
       \<longleftrightarrow> paymentTimers (modal_handleSubmit (modal_init\<lparr>inputs := sample_fields\<rparr>)) = 1)"
  using modal_single_payment [OF sample_submitted_reachable] sample_submitted_reachable by simp



end
