(* ===== verification/Presentation.thy ===== *)
theory Presentation
  imports Prelude
begin

text \<open>
  The presentation components that render their props and constants only:
  \<open>src/components/About.tsx\<close> with the text \<open>App.tsx\<close> passes it (line 12), and
  \<open>src/docs/components/Footer.tsx\<close> with its social links and the copyright line, whose
  year is the browser clock's \<open>new Date().getFullYear()\<close>, a parameter here.  Markup,
  classes and icons are not modelled; \<open>LoadingSpinner.tsx\<close> renders markup only.
\<close>

definition ABOUT_TEXT :: string where
  "ABOUT_TEXT =
     ''Nous concevons des s'' @ CHR 0xE9 # ''jours sur-mesure, invitant jeunes adultes, couples et ''
     @ ''voyageurs internationaux '' @ CHR 0xE0 # '' d'' @ CHR 0xE9 # ''couvrir des facettes exclusives ''
     @ ''du pays. Acc'' @ CHR 0xE9 # ''dez '' @ CHR 0xE0 # '' des activit'' @ CHR 0xE9 # ''s uniques, ''
     @ ''loin des sentiers battus, pour une immersion authentique et '' @ CHR 0xE9 # ''l''
     @ CHR 0xE9 # ''gante.''"

text \<open>\<open>About\<close>: the heading \<open>L'Agence\<close> and the paragraph \<open>{aboutText}\<close>.\<close>

definition About :: "string \<Rightarrow> string \<times> string" where
  "About aboutText = (''L'' @ CHR 0x27 # ''Agence'', aboutText)"

record social_link =
  link_href :: string
  link_target :: string
  link_rel :: string

text \<open>\<open>SocialIcon\<close>: an anchor that opens in a new tab without giving it the opener.\<close>

definition SocialIcon :: "string \<Rightarrow> social_link" where
  "SocialIcon href = \<lparr>link_href = href, link_target = ''_blank'', link_rel = ''noopener noreferrer''\<rparr>"

definition FOOTER_LINKS :: "social_link list" where
  "FOOTER_LINKS =
     [SocialIcon ''https://www.instagram.com/nerza.agency?utm_source=ig_web_button_share_sheet&igsh=MWV4eXk2ZDFjMnhmYg=='',
      SocialIcon ''https://www.tiktok.com/@nerza_agency.ma?is_from_webapp=1&sender_device=pc'']"

text \<open>\<open>&copy; {new Date().getFullYear()} Nerza Agency. Tous droits r\<acute>eserv\<acute>es.\<close>\<close>

definition footer_copyright :: "int \<Rightarrow> string" where
  "footer_copyright year =
     CHR 0xA9 # '' '' @ js_int_str year @ '' Nerza Agency. Tous droits r'' @ CHR 0xE9 # ''serv''
     @ CHR 0xE9 # ''s.''"

definition Footer :: "int \<Rightarrow> string \<times> social_link list \<times> string" where
  "Footer year = (''Nerza Agency'', FOOTER_LINKS, footer_copyright year)"

text \<open>Every external link of the footer opens in a new tab with \<open>noopener\<close>, so the
  opened page gets no handle on the site's window.\<close>

lemma footer_links_noopener:
  "\<forall>l \<in> set (fst (snd (Footer year))). link_target l = ''_blank'' \<and> js_includes ''noopener'' (link_rel l)"
  by (simp add: Footer_def FOOTER_LINKS_def SocialIcon_def)

end
