(* ===== verification/Spec2Isabelle.thy ===== *)
theory Spec2Isabelle
  imports Prelude Pricing GeminiService ServicesSection FormProgress FinalizationModal ItineraryView
    Header BookingModal Presentation
begin

text \<open>
  \<^bold>\<open>A verification development of Nerza Agency.\<close>

  The repository is a React site of a travel agency.  Its logic lives in two files:
  \<^item> \<open>src/services/geminiService.ts\<close>: the resilient AI client.
    \<open>generateContentWithRetry\<close> calls the external text generator and retries rate-limit
    failures (messages containing \<open>429\<close> or \<open>RESOURCE_EXHAUSTED\<close>) with exponential
    backoff and jitter.  \<open>generateWithFallback\<close> (used for the tagline by
    \<open>generateAgencyContent\<close>) substitutes a fallback text when no key is configured or the
    call fails.  \<open>generateItinerary\<close> builds the itinerary prompt and returns a fixed
    sample without a key.
  \<^item> \<open>src/components/ServicesSection.tsx\<close>: the trip form.  It holds the pricing rule
    \<open>calculatePrice\<close> and the form state (contact fields, region, interests, duration,
    budget, itinerary, price, loading and error flags, modal and banner flags), changed by
    the event handlers and by asynchronous completions (generation, timers).
  The page shell \<open>src/docs/App.tsx\<close> loads the tagline on mount; \<open>Header.tsx\<close>
  cycles the background images of the catalog \<open>src/constants.ts\<close>;
  \<open>BookingModal.tsx\<close> simulates a payment for a single service and
  \<open>ServiceCard.tsx\<close> presents one (neither is rendered by any other component);
  \<open>About.tsx\<close>, \<open>Footer.tsx\<close> and \<open>LoadingSpinner.tsx\<close> render their props and
  constants.

  \<^bold>\<open>Theories.\<close>
  \<^item> \<open>Prelude\<close>: the JavaScript built-ins the code relies on (truthiness, \<open>trim\<close>,
    \<open>includes\<close>, \<open>join\<close>, \<open>parseInt\<close>, number printing, insertion-ordered sets) and
    their shared lemmas, among them the parse/print round trip and the equivalence of
    \<open>js_includes\<close> with the library's \<open>sublist\<close>.
  \<^item> \<open>Pricing\<close>: \<open>calculatePrice\<close> (ServicesSection.tsx lines 16--40) computed in \<open>rat\<close>
    and rounded with \<open>round\<close> (half up, as \<open>Math.round\<close>), and the duration field's
    handler \<open>durationInput\<close> (line 194).  Lemmas: the closed form \<open>daily_rate b * d\<close>,
    the reference prices of the spec, and the round trip of the duration input.
  \<^item> \<open>GeminiService\<close>: \<open>generateContentWithRetry\<close>, \<open>generateWithFallback\<close>,
    \<open>generateAgencyContent\<close>, the prompt builder (\<open>locationFocus\<close>,
    \<open>interestPrompt\<close>, \<open>itineraryPrompt\<close>) and \<open>generateItinerary\<close>.  The external
    service is an environment \<open>ai_env\<close>: the key, the outcome of the n-th call of a
    request, and the jitter of the n-th wait; the client's effects are the state
    \<open>ai_state\<close> (calls made, waits slept, console log).  Errors are the left values of
    \<open>ai_error + js_string\<close>.  Lemmas: the bound of at most \<open>retries + 1\<close> calls, the
    three scenarios of the spec (success on the third call, exhaustion after four,
    immediate re-throw of other errors), the backoff schedule and its 8500 ms bound, the
    refinement of the recursive wrapper into the bounded loop \<open>retry_loop\<close> of the
    spec's section 9, the fallback behaviour, the itinerary's error and no-key paths, and
    the content of the prompt.
  \<^item> \<open>ServicesSection\<close>: the trip form as a record of its hooks, one definition per
    handler, the events the rendered page offers (\<open>enabled\<close>), the step relation
    \<open>form_step\<close> with the asynchronous completions (generation, payment timer, reset
    timer) as events, its reachable states and invariant \<open>form_inv\<close> (interests valid
    for the region, duration at least 1, price positive, every pending request a
    well-formed \<open>ItineraryParams\<close>), the functional behaviour of the handlers, and
    traces that exhibit the interleavings the code allows.
  \<^item> \<open>FormProgress\<close>: progress of the form: from every reachable state the pending
    generations and timers can all fire, in a fixed order, and the page ends idle.
  \<^item> \<open>FinalizationModal\<close>: what \<open>BookingFinalizationModal.tsx\<close> shows: the
    \<open>details\<close> prop built by the form, the early return when closed, the summary lines
    and the confirm button; lemmas: the summary shows the stored price and never a bare
    \<open>0\<close>, and a trace on which the reopened modal shows a cleared booking and still
    confirms it.
  \<^item> \<open>ItineraryView\<close>: the two global regular-expression replacements of line 244 as
    terminating left-to-right scans (\<open>replace_headings\<close>, \<open>replace_bold\<close>); lemmas: text
    without markers passes unchanged (and unescaped) to \<open>innerHTML\<close>, a heading line,
    a bold pair.
  \<^item> \<open>Catalog\<close>: the \<open>SERVICES\<close> catalog of \<open>constants.ts\<close> and \<open>ServiceCard\<close>;
    facts: the ids are 1 to 8 and the images are distinct.
  \<^item> \<open>Header\<close>: the carousel index and the tagline slot; lemma: after n firings exactly
    one layer, that of service \<open>n mod 8\<close>, is opaque, and the next firing changes the
    picture.
  \<^item> \<open>BookingModal\<close>: \<open>isSubmitting\<close>, the payment timer, the disabled button, the
    uncontrolled inputs and the HTML constraint validation that gates the form's
    \<open>submit\<close> event (required values, the standard's valid e-mail address, a whole number
    of participants from 1), and the rendered service line and button, as a step
    relation; lemmas: at most one payment is ever pending, and every confirmation
    answers a submission that passed validation.
  \<^item> \<open>Presentation\<close>: \<open>About\<close> with the text \<open>App\<close> passes it, and \<open>Footer\<close> with its
    links and copyright line for a given year; fact: every footer link opens with
    \<open>noopener\<close>.
  \<^item> this theory: \<open>App.tsx\<close>'s \<open>fetchContent\<close> composed with the tagline client and the
    rendered page (\<open>app_view\<close>: tagline slot and error paragraph), and the end-to-end
    scenario of the spec through the form's events.

  \<^bold>\<open>Modelling choices.\<close>
  JavaScript numbers are exact integers and rationals: the prices are integral for every
  integral duration (lemma \<open>calculatePrice_daily_rate\<close>), so the IEEE rounding of the
  products does not matter for the durations the form produces; durations beyond
  \<open>2^53\<close> are outside the model.  Strings are lists of the code units below 256, which
  covers every literal of the logic; the catalog's descriptions, one of which holds the
  code unit \<open>0x153\<close>, are lists of code units as numbers.  The browser's validation of
  the booking modal's inputs follows the HTML standard and is part of the model, not of
  the map.  The French prompt and fallback texts are the fields of the record
  \<open>gemini_texts\<close>, a parameter of every definition that uses them, because a theory
  file is ASCII; the theorems hold for every value of them.  There is no fuel and no
  \<open>partial_function\<close>: every loop of the program terminates, the retry recursion on its
  \<open>retries\<close> argument, the bounded loop on \<open>maxRetries - i\<close>, and the two regular
  expression scans on the length of the remaining text; timers are events, so time is
  the order of events and not a number, and the progress lemma says that every pending
  event can still fire, not when.

  \<^bold>\<open>Not modelled.\<close>  Styling, layout, icons, and the static headings and lists of the
  modals; \<open>LoadingSpinner\<close> renders markup only.  The French number format of the
  displayed price (\<open>Intl.NumberFormat('fr-MA', ...)\<close>, whose separators and currency
  sign come from the browser's locale data) is left out and the price is kept as the
  number.  The network: the
  service's answers are arbitrary, so every theorem on the client holds for every
  behaviour of it.  The module layout is taken as intended: several relative imports of
  the sources do not resolve as the files are placed (a \<open>types\<close> module is missing, and
  components under \<open>src/docs\<close> and \<open>src/components\<close> import each other from the wrong
  directory).
\<close>

section \<open>The application shell and the end-to-end scenario\<close>

text \<open>
  \<open>src/docs/App.tsx\<close> (lines 9--34): the state of the page shell and \<open>fetchContent\<close>,
  run once on mount, which loads the tagline through \<open>generateAgencyContent\<close>.
  \<open>generateAgencyContent\<close> always returns a value (every failure of the client is
  caught inside \<open>generateWithFallback\<close>), and \<open>if (content)\<close> tests an object, so the
  model of \<open>fetchContent\<close> is its \<open>try\<close> path; the lemma below shows that the error
  message is then never set.
\<close>

record app_state =
  tagline :: js_string
  appLoading :: bool
  appError :: "string option"
  appAi :: ai_state

definition app_init :: app_state where
  "app_init =
     \<lparr>tagline = Some (''Vivez une exp'' @ CHR 0xE9 # ''rience inoubliable au Maroc.''),
      appLoading = True, appError = None, appAi = \<lparr>calls = 0, waits = [], log = []\<rparr>\<rparr>"

definition fetchContent :: "gemini_texts \<Rightarrow> ai_env \<Rightarrow> app_state \<Rightarrow> app_state" where
  "fetchContent T env s =
     (let s1 = s\<lparr>appLoading := True, appError := None\<rparr>;
          (content, ai') = generateAgencyContent T env (appAi s1)
      in s1\<lparr>tagline := content, appAi := ai', appLoading := False\<rparr>)"

text \<open>The page (lines 36--46): the header's tagline slot, and the error paragraph under
  \<open>{error && ...}\<close>.\<close>

definition app_view :: "app_state \<Rightarrow> tagline_display \<times> string option" where
  "app_view s = (header_tagline (tagline s) (appLoading s), appError s)"

text \<open>C33 (app_tagline): after \<open>fetchContent\<close> the header shows a tagline, not the
  spinner, the page shows no error paragraph, and the tagline is the fallback tagline or
  the text of one of at most four calls of the tagline request.\<close>

theorem fetchContent_tagline:
  "app_view (fetchContent T env s) = (TaglineText (tagline (fetchContent T env s)), None)
   \<and> (tagline (fetchContent T env s) = Some (fallbackTagline T)
      \<or> (\<exists>i < 4. generateContent env (geminiRequest (taglinePrompt T) (7 / 10)) (calls (appAi s) + i)
                  = Resp (tagline (fetchContent T env s))))"
proof -
  obtain c ai' where g: "generateWithFallback env (taglinePrompt T) (fallbackTagline T) (appAi s) = (c, ai')"
    by (cases "generateWithFallback env (taglinePrompt T) (fallbackTagline T) (appAi s)")
  have "tagline (fetchContent T env s) = c"
    by (simp add: fetchContent_def generateAgencyContent_def g)
  moreover have "c = Some (fallbackTagline T) \<or>
      (\<exists>i < 4. generateContent env (geminiRequest (taglinePrompt T) (7 / 10)) (calls (appAi s) + i) = Resp c)"
    using generateWithFallback_result [of env "taglinePrompt T" "fallbackTagline T" "appAi s"] g by simp
  ultimately show ?thesis
    by (simp add: fetchContent_def generateAgencyContent_def g app_view_def header_tagline_def)
qed



end
